theory Spec2Isabelle
  imports Complex_Main
begin

section \<open>Values, errors and the array primitives used by the optimizers\<close>

text \<open>
  The module \<^verbatim>\<open>core/optimizer.py\<close> works on Python floats and numpy arrays.
  Floats are modelled by \<^typ>\<open>real\<close>: infinities and NaN are outside the model,
  and so is rounding, except in the \<^verbatim>\<open>LinearLR\<close> schedule, whose repeated
  addition of a rounded delta is modelled with the rounding of IEEE doubles. Every exception the code can raise is a value of \<open>error\<close>, and a function
  that can raise returns \<open>error + 'a\<close> with \<open>Inl\<close> for the exception.
  \<open>ComplexResult\<close> is not an exception: it marks the one place where Python's
  float power leaves the real numbers (a negative base with a fractional exponent gives a
  complex number), which the real-valued model cannot follow.
\<close>

datatype error =
    NotImplementedError
  | ValueError
  | TypeError
  | AssertionError
  | ZeroDivisionError
  | ComplexResult

text \<open>
  A parameter or gradient of the network is a numpy array: its shape and its elements in
  row-major order, which is the order of \<^verbatim>\<open>np.ravel\<close> and of
  \<^verbatim>\<open>reshape\<close>. An array is well formed when it has as many elements as its
  shape says.
\<close>

record ndarray =
  shape :: "nat list"
  data :: "real list"

definition wf_ndarray :: "ndarray \<Rightarrow> bool" where
  "wf_ndarray a = (length (data a) = prod_list (shape a))"

text \<open>
  The network is an external collaborator; the optimizer only uses the ordered sequence
  of (parameter, gradient) pairs it exposes.
\<close>

type_synonym NeuralNet = "(ndarray \<times> ndarray) list"

definition get_params_and_grads :: "NeuralNet \<Rightarrow> (ndarray \<times> ndarray) list" where
  "get_params_and_grads net = net"

definition np_ravel :: "ndarray \<Rightarrow> real list" where
  "np_ravel a = data a"

text \<open>\<^verbatim>\<open>np.concatenate\<close> of an empty sequence raises ValueError.\<close>

definition np_concatenate :: "real list list \<Rightarrow> error + real list" where
  "np_concatenate xss = (if xss = [] then Inl ValueError else Inr (concat xss))"

text \<open>
  \<^verbatim>\<open>np.prod(param.shape)\<close>: the product of the dimensions, an integer. For the
  empty shape \<^verbatim>\<open>()\<close> of a zero-dimensional array numpy reduces an empty float
  array and returns the float \<^verbatim>\<open>1.0\<close>, which is \<open>None\<close> here: it is not an
  integer and cannot bound a slice.
\<close>

definition np_prod :: "nat list \<Rightarrow> nat option" where
  "np_prod shp = (if shp = [] then None else Some (prod_list shp))"

text \<open>\<^verbatim>\<open>xs[lo:hi]\<close> on a one-dimensional array; a slice past the end is cut short.\<close>

definition slice :: "real list \<Rightarrow> nat \<Rightarrow> nat \<Rightarrow> real list" where
  "slice xs lo hi = take (hi - lo) (drop lo xs)"

text \<open>\<^verbatim>\<open>xs.reshape(shp)\<close> raises ValueError unless the element counts agree.\<close>

definition reshape :: "real list \<Rightarrow> nat list \<Rightarrow> error + ndarray" where
  "reshape xs shp =
     (if length xs = prod_list shp then Inr \<lparr>shape = shp, data = xs\<rparr> else Inl ValueError)"

text \<open>
  \<^verbatim>\<open>param += block\<close> for a block that \<^verbatim>\<open>reshape\<close> has given the shape of the
  parameter: elementwise addition in place. With another shape numpy would have to
  broadcast; the optimizer never produces one, and the model raises ValueError there.
\<close>

definition iadd :: "ndarray \<Rightarrow> ndarray \<Rightarrow> error + ndarray" where
  "iadd param block =
     (if shape block = shape param
      then Inr (param\<lparr>data := map2 (+) (data param) (data block)\<rparr>)
      else Inl ValueError)"

section \<open>Optimizer\<close>

text \<open>
  \<^verbatim>\<open>class Optimizer\<close> has the single field \<^verbatim>\<open>lr\<close>; the subclasses extend
  it. The constructor stores \<^verbatim>\<open>lr\<close> and checks nothing. Constructors return a
  result of type \<open>error + _\<close> like every other operation, so that a failing
  construction can be told from a successful one.
\<close>

record Optimizer =
  lr :: real

definition Optimizer_init :: "real \<Rightarrow> error + Optimizer" where
  "Optimizer_init l = Inr \<lparr>lr = l\<rparr>"

text \<open>
  The second loop of \<^verbatim>\<open>Optimizer.step\<close>: \<open>pointer\<close> walks through the flat
  update vector, each parameter receives the next \<open>block\<close> elements. The result is the
  sequence of pairs with the updated parameters. When the loop raises, the parameters that
  were already updated in place are not reported.
\<close>

fun apply_blocks ::
  "real list \<Rightarrow> nat \<Rightarrow> (ndarray \<times> ndarray) list \<Rightarrow> error + (ndarray \<times> ndarray) list" where
  "apply_blocks stp pointer [] = Inr []"
| "apply_blocks stp pointer ((param, grad) # rest) =
     (case np_prod (shape param) of
        None \<Rightarrow> Inl TypeError
      | Some block \<Rightarrow>
          (case reshape (slice stp pointer (pointer + block)) (shape param) of
             Inl e \<Rightarrow> Inl e
           | Inr b \<Rightarrow>
               (case iadd param b of
                  Inl e \<Rightarrow> Inl e
                | Inr param' \<Rightarrow>
                    (case apply_blocks stp (pointer + block) rest of
                       Inl e \<Rightarrow> Inl e
                     | Inr rest' \<Rightarrow> Inr ((param', grad) # rest')))))"

text \<open>
  \<^verbatim>\<open>Optimizer.step\<close>, with the method \<^verbatim>\<open>_compute_step\<close> of the subclass as
  the argument \<open>compute_step\<close>: it takes the optimizer and the flat gradient and returns
  the optimizer with its updated state and the flat update vector, or raises. The program
  asks the network for its pairs twice, once in each pass; the network answers with the
  same sequence both times.
\<close>

definition Optimizer_step ::
  "('o \<Rightarrow> real list \<Rightarrow> error + 'o \<times> real list) \<Rightarrow> 'o \<Rightarrow> NeuralNet \<Rightarrow> error + 'o \<times> NeuralNet" where
  "Optimizer_step compute_step opt net =
     (case np_concatenate (map (\<lambda>(param, grad). np_ravel grad) (get_params_and_grads net)) of
        Inl e \<Rightarrow> Inl e
      | Inr grad \<Rightarrow>
          (case compute_step opt grad of
             Inl e \<Rightarrow> Inl e
           | Inr (opt', stp) \<Rightarrow>
               (case apply_blocks stp 0 (get_params_and_grads net) of
                  Inl e \<Rightarrow> Inl e
                | Inr net' \<Rightarrow> Inr (opt', net'))))"

text \<open>\<^verbatim>\<open>Optimizer._compute_step\<close> of the base class.\<close>

definition Optimizer_compute_step :: "'o \<Rightarrow> real list \<Rightarrow> error + 'o \<times> real list" where
  "Optimizer_compute_step opt grad = Inl NotImplementedError"

subsection \<open>SGD\<close>

definition SGD_init :: "real \<Rightarrow> error + Optimizer" where
  "SGD_init l = Optimizer_init l"

definition SGD_compute_step :: "Optimizer \<Rightarrow> real list \<Rightarrow> error + Optimizer \<times> real list" where
  "SGD_compute_step opt grad = Inr (opt, map (\<lambda>x. - lr opt * x) grad)"


subsection \<open>Optimizer state and broadcasting\<close>

text \<open>
  The accumulators of the stateful optimizers start as the Python scalar \<^verbatim>\<open>0\<close>
  and become one-dimensional arrays at the first update, by numpy's broadcasting. A
  \<open>Tensor\<close> is either of the two.
\<close>

datatype Tensor = Scalar real | Vec "real list"

text \<open>\<^verbatim>\<open>c * a\<close> for a float \<open>c\<close>.\<close>

definition tmul :: "real \<Rightarrow> Tensor \<Rightarrow> Tensor" where
  "tmul c a = (case a of Scalar x \<Rightarrow> Scalar (c * x) | Vec xs \<Rightarrow> Vec (map (\<lambda>x. c * x) xs))"

text \<open>
  An elementwise binary operation between a tensor and a one-dimensional array. A scalar
  is spread over the array; two arrays need the same length, or one of them the length 1,
  which is spread over the other; any other pair of lengths raises ValueError.
\<close>

definition broadcast :: "(real \<Rightarrow> real \<Rightarrow> real) \<Rightarrow> Tensor \<Rightarrow> real list \<Rightarrow> error + real list" where
  "broadcast f a ys =
     (case a of
        Scalar x \<Rightarrow> Inr (map (f x) ys)
      | Vec xs \<Rightarrow>
          if length xs = length ys then Inr (map2 f xs ys)
          else if length xs = 1 then Inr (map (f (hd xs)) ys)
          else if length ys = 1 then Inr (map (\<lambda>x. f x (hd ys)) xs)
          else Inl ValueError)"

subsection \<open>Adam\<close>

text \<open>
  When a method of a stateful optimizer raises in the middle, the fields it has already
  assigned are not reported: the result is the exception alone.
\<close>

record Adam = Optimizer +
  adam_b1 :: real
  adam_b2 :: real
  adam_eps :: real
  adam_t :: nat
  adam_m :: Tensor
  adam_v :: Tensor

definition Adam_init :: "real \<Rightarrow> real \<Rightarrow> real \<Rightarrow> real \<Rightarrow> error + Adam" where
  "Adam_init l beta1 beta2 epsilon =
     Inr \<lparr>lr = l, adam_b1 = beta1, adam_b2 = beta2, adam_eps = epsilon,
          adam_t = 0, adam_m = Scalar 0, adam_v = Scalar 0\<rparr>"

definition Adam_lr_t :: "Adam \<Rightarrow> nat \<Rightarrow> real" where
  "Adam_lr_t opt n = lr opt * sqrt (1 - adam_b2 opt ^ n) / (1 - adam_b1 opt ^ n)"

definition Adam_compute_step :: "Adam \<Rightarrow> real list \<Rightarrow> error + Adam \<times> real list" where
  "Adam_compute_step opt grad =
     (let n = adam_t opt + 1;
          lr_t = Adam_lr_t opt n
      in case broadcast (+) (tmul (adam_b1 opt) (adam_m opt))
                (map (\<lambda>x. (1 - adam_b1 opt) * x) grad) of
           Inl e \<Rightarrow> Inl e
         | Inr m' \<Rightarrow>
             (case broadcast (+) (tmul (adam_b2 opt) (adam_v opt))
                     (map (\<lambda>x. (1 - adam_b2 opt) * x\<^sup>2) grad) of
                Inl e \<Rightarrow> Inl e
              | Inr v' \<Rightarrow>
                  (case broadcast (/) (Vec (map (\<lambda>x. - lr_t * x) m'))
                          (map (\<lambda>x. sqrt x + adam_eps opt) v') of
                     Inl e \<Rightarrow> Inl e
                   | Inr stp \<Rightarrow>
                       Inr (opt\<lparr>adam_t := n, adam_m := Vec m', adam_v := Vec v'\<rparr>, stp))))"

subsection \<open>RMSProp\<close>

record RMSProp = Optimizer +
  rms_decay :: real
  rms_momentum :: real
  rms_eps :: real
  rms_ms :: Tensor
  rms_mom :: Tensor

definition RMSProp_init :: "real \<Rightarrow> real \<Rightarrow> real \<Rightarrow> real \<Rightarrow> error + RMSProp" where
  "RMSProp_init l decay momentum epsilon =
     Inr \<lparr>lr = l, rms_decay = decay, rms_momentum = momentum, rms_eps = epsilon,
          rms_ms = Scalar 0, rms_mom = Scalar 0\<rparr>"

definition RMSProp_compute_step :: "RMSProp \<Rightarrow> real list \<Rightarrow> error + RMSProp \<times> real list" where
  "RMSProp_compute_step opt grad =
     (case broadcast (+) (tmul (rms_decay opt) (rms_ms opt))
             (map (\<lambda>x. (1 - rms_decay opt) * x\<^sup>2) grad) of
        Inl e \<Rightarrow> Inl e
      | Inr ms' \<Rightarrow>
          (case broadcast (/) (Vec (map (\<lambda>x. lr opt * x) grad))
                  (map (\<lambda>x. sqrt (x + rms_eps opt)) ms') of
             Inl e \<Rightarrow> Inl e
           | Inr q \<Rightarrow>
               (case broadcast (+) (tmul (rms_momentum opt) (rms_mom opt)) q of
                  Inl e \<Rightarrow> Inl e
                | Inr mom' \<Rightarrow>
                    Inr (opt\<lparr>rms_ms := Vec ms', rms_mom := Vec mom'\<rparr>, map uminus mom'))))"

subsection \<open>Momentum\<close>

record Momentum = Optimizer +
  mom_momentum :: real
  mom_acc :: Tensor

definition Momentum_init :: "real \<Rightarrow> real \<Rightarrow> error + Momentum" where
  "Momentum_init l momentum = Inr \<lparr>lr = l, mom_momentum = momentum, mom_acc = Scalar 0\<rparr>"

definition Momentum_compute_step :: "Momentum \<Rightarrow> real list \<Rightarrow> error + Momentum \<times> real list" where
  "Momentum_compute_step opt grad =
     (case broadcast (+) (tmul (mom_momentum opt) (mom_acc opt)) grad of
        Inl e \<Rightarrow> Inl e
      | Inr a \<Rightarrow> Inr (opt\<lparr>mom_acc := Vec a\<rparr>, map (\<lambda>x. - lr opt * x) a))"


section \<open>Learning-rate schedulers\<close>

text \<open>
  A scheduler holds a reference to its optimizer and writes the optimizer's field
  \<^verbatim>\<open>lr\<close>. The optimizer is therefore an argument and a result of every scheduler
  operation; it may be any subclass of \<^verbatim>\<open>Optimizer\<close>. The fields of the
  subclasses of \<^verbatim>\<open>LRScheduler\<close> are the arguments of the constructors of
  \<open>policy\<close>, and \<^verbatim>\<open>_compute_lr\<close> dispatches on it:
  \<open>StepLR step_size gamma\<close>, \<open>MultiStepLR milestones gamma\<close>,
  \<open>ExponentialLR decay_steps decay_rate\<close> and
  \<open>LinearLR lr_delta final_lr decay_steps start_step\<close>.
\<close>

datatype policy =
    StepLR int real
  | MultiStepLR "int list" real
  | ExponentialLR int real
  | LinearLR real real int int

record LRScheduler =
  initial_lr :: real
  sched_t :: nat
  policy :: policy

definition get_current_lr :: "'a Optimizer_scheme \<Rightarrow> real" where
  "get_current_lr optim = lr optim"

definition LRScheduler_init :: "'a Optimizer_scheme \<Rightarrow> policy \<Rightarrow> LRScheduler" where
  "LRScheduler_init optim p = \<lparr>initial_lr = get_current_lr optim, sched_t = 0, policy = p\<rparr>"

text \<open>
  Python's \<^verbatim>\<open>x ** y\<close> on floats, where it stays inside the reals: a negative base
  with an exponent that is not an integer gives a complex number.
\<close>

definition float_pow :: "real \<Rightarrow> real \<Rightarrow> error + real" where
  "float_pow x y =
     (if y = 0 then Inr 1
      else if x = 0 then (if y < 0 then Inl ZeroDivisionError else Inr 0)
      else if 0 < x then Inr (x powr y)
      else if of_int \<lfloor>y\<rfloor> = y then Inr ((if even \<lfloor>y\<rfloor> then 1 else - 1) * ((- x) powr y))
      else Inl ComplexResult)"

subsection \<open>Rounding to IEEE doubles\<close>

text \<open>
  A Python float is an IEEE double: 53 significant bits, results rounded to the nearest
  double, ties to the even one. \<open>binade x\<close> is the exponent \<open>e\<close> with
  \<open>2 ^ e \<le> x < 2 ^ (e + 1)\<close> for positive \<open>x\<close>, found by halving or doubling.
  \<open>round_double x\<close> is the double nearest to \<open>x\<close>, for \<open>x\<close> within the range of normal
  doubles; overflow and subnormal numbers are outside the model.
\<close>

definition round_half_even :: "real \<Rightarrow> int" where
  "round_half_even x =
     (let f = \<lfloor>x\<rfloor>; d = x - of_int f
      in if d < 1 / 2 then f else if 1 / 2 < d then f + 1 else if even f then f else f + 1)"

function exp_up :: "real \<Rightarrow> int" where
  "exp_up x = (if 2 \<le> x then 1 + exp_up (x / 2) else 0)"
  by pat_completeness auto
termination
proof (relation "measure (\<lambda>x. nat \<lceil>x\<rceil>)")
  show "wf (measure (\<lambda>x::real. nat \<lceil>x\<rceil>))" by simp
next
  fix x :: real
  assume "2 \<le> x"
  then have "x / 2 \<le> x - 1" by simp
  then have "\<lceil>x / 2\<rceil> \<le> \<lceil>x - 1\<rceil>" by (rule ceiling_mono)
  moreover have "0 < \<lceil>x\<rceil>" using \<open>2 \<le> x\<close> by simp
  ultimately show "(x / 2, x) \<in> measure (\<lambda>x. nat \<lceil>x\<rceil>)" by simp
qed

function exp_down :: "real \<Rightarrow> int" where
  "exp_down x = (if 0 < x \<and> x < 1 then exp_down (2 * x) - 1 else 0)"
  by pat_completeness auto
termination
proof (relation "measure (\<lambda>x. nat \<lceil>1 / x\<rceil>)")
  show "wf (measure (\<lambda>x::real. nat \<lceil>1 / x\<rceil>))" by simp
next
  fix x :: real
  assume a: "0 < x \<and> x < 1"
  then have y: "1 < 1 / x" by simp
  then have c: "2 \<le> \<lceil>1 / x\<rceil>" by linarith
  have "1 / (2 * x) = (1 / x) / 2" by simp
  also have "\<dots> \<le> of_int \<lceil>1 / x\<rceil> / 2" by (simp add: divide_right_mono)
  also have "\<dots> \<le> of_int (\<lceil>1 / x\<rceil> - 1)" using c by simp
  finally have "1 / (2 * x) \<le> of_int (\<lceil>1 / x\<rceil> - 1)" .
  then have "\<lceil>1 / (2 * x)\<rceil> \<le> \<lceil>1 / x\<rceil> - 1" by (rule ceiling_le)
  with a c show "(2 * x, x) \<in> measure (\<lambda>x. nat \<lceil>1 / x\<rceil>)" by simp
qed

definition binade :: "real \<Rightarrow> int" where
  "binade x = (if 2 \<le> x then exp_up x else exp_down x)"

definition pow2 :: "int \<Rightarrow> real" where
  "pow2 e = (if 0 \<le> e then 2 ^ nat e else 1 / 2 ^ nat (- e))"

definition round_double :: "real \<Rightarrow> real" where
  "round_double x =
     (if x = 0 then 0
      else let e = binade \<bar>x\<bar> - 52
           in of_int (round_half_even (x / pow2 e)) * pow2 e)"

text \<open>
  Float addition, subtraction and division, and the conversion of a Python int to a float.
\<close>

definition float_add :: "real \<Rightarrow> real \<Rightarrow> real" where
  "float_add x y = round_double (x + y)"

definition float_sub :: "real \<Rightarrow> real \<Rightarrow> real" where
  "float_sub x y = round_double (x - y)"

definition float_div :: "real \<Rightarrow> real \<Rightarrow> real" where
  "float_div x y = round_double (x / y)"

definition float_of_int :: "int \<Rightarrow> real" where
  "float_of_int n = round_double (of_int n)"

subsection \<open>Constructors\<close>

definition StepLR_init :: "'a Optimizer_scheme \<Rightarrow> int \<Rightarrow> real \<Rightarrow> error + LRScheduler" where
  "StepLR_init optim step_size gamma =
     (if step_size \<ge> 1 then Inr (LRScheduler_init optim (StepLR step_size gamma))
      else Inl AssertionError)"

text \<open>
  The elements a caller may put into the list \<^verbatim>\<open>milestones\<close>: Python ints,
  floats and \<^verbatim>\<open>None\<close>. \<^verbatim>\<open>int(m)\<close> keeps an int, truncates a float towards
  zero and raises TypeError on \<^verbatim>\<open>None\<close>.
\<close>

datatype pyval = PyInt int | PyFloat real | PyNone

definition py_int :: "pyval \<Rightarrow> error + int" where
  "py_int m =
     (case m of
        PyInt n \<Rightarrow> Inr n
      | PyFloat x \<Rightarrow> Inr (if 0 \<le> x then \<lfloor>x\<rfloor> else \<lceil>x\<rceil>)
      | PyNone \<Rightarrow> Inl TypeError)"

definition isinstance_int :: "pyval \<Rightarrow> bool" where
  "isinstance_int m = (case m of PyInt n \<Rightarrow> True | _ \<Rightarrow> False)"

text \<open>\<^verbatim>\<open>[int(m) for m in milestones]\<close>: the first element that fails raises.\<close>

fun int_each :: "pyval list \<Rightarrow> error + int list" where
  "int_each [] = Inr []"
| "int_each (m # ms) =
     (case py_int m of
        Inl e \<Rightarrow> Inl e
      | Inr n \<Rightarrow> (case int_each ms of Inl e \<Rightarrow> Inl e | Inr ns \<Rightarrow> Inr (n # ns)))"

definition MultiStepLR_init ::
  "'a Optimizer_scheme \<Rightarrow> pyval list \<Rightarrow> real \<Rightarrow> error + LRScheduler" where
  "MultiStepLR_init optim milestones gamma =
     (case int_each milestones of
        Inl e \<Rightarrow> Inl e
      | Inr ms \<Rightarrow>
          if list_all (\<lambda>(x, y). x < y) (zip (butlast ms) (tl ms)) \<and>
             list_all (\<lambda>x. isinstance_int (PyInt x)) ms
          then Inr (LRScheduler_init optim (MultiStepLR ms gamma))
          else Inl AssertionError)"

definition ExponentialLR_init :: "'a Optimizer_scheme \<Rightarrow> int \<Rightarrow> real \<Rightarrow> error + LRScheduler" where
  "ExponentialLR_init optim decay_steps decay_rate =
     Inr (LRScheduler_init optim (ExponentialLR decay_steps decay_rate))"

definition LinearLR_init ::
  "'a Optimizer_scheme \<Rightarrow> int \<Rightarrow> real \<Rightarrow> int \<Rightarrow> error + LRScheduler" where
  "LinearLR_init optim decay_steps final_lr start_step =
     (let i = get_current_lr optim
      in if \<not> final_lr < i then Inl AssertionError
         else if \<not> decay_steps > 0 then Inl AssertionError
         else Inr (LRScheduler_init optim
                 (LinearLR (float_div (float_sub final_lr i) (float_of_int decay_steps))
                    final_lr decay_steps start_step)))"

subsection \<open>The decay policies and \<^verbatim>\<open>step\<close>\<close>

definition compute_lr :: "LRScheduler \<Rightarrow> 'a Optimizer_scheme \<Rightarrow> error + real" where
  "compute_lr s optim =
     (case policy s of
        StepLR n g \<Rightarrow>
          if n = 0 then Inl ZeroDivisionError
          else Inr ((if int (sched_t s) mod n = 0 then g else 1) * get_current_lr optim)
      | MultiStepLR ms g \<Rightarrow>
          Inr ((if int (sched_t s) \<in> set ms then g else 1) * get_current_lr optim)
      | ExponentialLR n r \<Rightarrow>
          if int (sched_t s) \<le> n then
            (if n = 0 then Inl ZeroDivisionError
             else case float_pow r (real (sched_t s) / of_int n) of
                    Inl e \<Rightarrow> Inl e
                  | Inr p \<Rightarrow> Inr (initial_lr s * p))
          else Inr (get_current_lr optim)
      | LinearLR d f n st \<Rightarrow>
          if int (sched_t s) > st then
            (if int (sched_t s) \<le> st + n then Inr (float_add (get_current_lr optim) d)
             else Inr (get_current_lr optim))
          else Inr (get_current_lr optim))"

text \<open>
  \<^verbatim>\<open>LRScheduler.step\<close> returns the scheduler with its counter advanced, the
  optimizer with its new rate, and the rate. When \<^verbatim>\<open>_compute_lr\<close> raises, the
  counter has already been advanced in the program; the result here is the exception alone.
\<close>

definition LRScheduler_step ::
  "LRScheduler \<Rightarrow> 'a Optimizer_scheme \<Rightarrow> error + LRScheduler \<times> 'a Optimizer_scheme \<times> real" where
  "LRScheduler_step s optim =
     (let s' = s\<lparr>sched_t := sched_t s + 1\<rparr>
      in case compute_lr s' optim of
           Inl e \<Rightarrow> Inl e
         | Inr r \<Rightarrow> (let optim' = optim\<lparr>lr := r\<rparr> in Inr (s', optim', get_current_lr optim')))"

section \<open>Repeated calls\<close>

text \<open>
  A training loop calls \<^verbatim>\<open>step\<close> again and again. \<open>LRScheduler_steps n\<close> is
  \<open>n\<close> calls in a row, stopping at the first exception; \<open>compute_steps\<close> calls a
  \<^verbatim>\<open>_compute_step\<close> on each gradient of a list, in order, and collects the update
  vectors.
\<close>

fun LRScheduler_steps ::
  "nat \<Rightarrow> LRScheduler \<Rightarrow> 'a Optimizer_scheme \<Rightarrow> error + LRScheduler \<times> 'a Optimizer_scheme" where
  "LRScheduler_steps 0 s optim = Inr (s, optim)"
| "LRScheduler_steps (Suc n) s optim =
     (case LRScheduler_step s optim of
        Inl e \<Rightarrow> Inl e
      | Inr (s', optim', r) \<Rightarrow> LRScheduler_steps n s' optim')"

fun compute_steps ::
  "('o \<Rightarrow> real list \<Rightarrow> error + 'o \<times> real list) \<Rightarrow> 'o \<Rightarrow> real list list \<Rightarrow> error + 'o \<times> real list list" where
  "compute_steps compute_step opt [] = Inr (opt, [])"
| "compute_steps compute_step opt (g # gs) =
     (case compute_step opt g of
        Inl e \<Rightarrow> Inl e
      | Inr (opt', stp) \<Rightarrow>
          (case compute_steps compute_step opt' gs of
             Inl e \<Rightarrow> Inl e
           | Inr (opt'', stps) \<Rightarrow> Inr (opt'', stp # stps)))"

section \<open>Splitting a flat vector into blocks\<close>

text \<open>
  What the claims about \<^verbatim>\<open>Optimizer.step\<close> are stated with: the partition of a
  flat vector into consecutive blocks of given sizes, and a parameter with a block added.
\<close>

fun split_blocks :: "nat list \<Rightarrow> real list \<Rightarrow> real list list" where
  "split_blocks [] xs = []"
| "split_blocks (n # ns) xs = take n xs # split_blocks ns (drop n xs)"

definition add_block :: "ndarray \<times> ndarray \<Rightarrow> real list \<Rightarrow> ndarray \<times> ndarray" where
  "add_block pg b = (\<lparr>shape = shape (fst pg), data = map2 (+) (data (fst pg)) b\<rparr>, snd pg)"

definition block_sizes :: "NeuralNet \<Rightarrow> nat list" where
  "block_sizes net = map (\<lambda>pg. prod_list (shape (fst pg))) net"

definition flat_grad :: "NeuralNet \<Rightarrow> real list" where
  "flat_grad net = concat (map (\<lambda>pg. data (snd pg)) net)"

definition well_shaped :: "NeuralNet \<Rightarrow> bool" where
  "well_shaped net =
     list_all (\<lambda>pg. wf_ndarray (fst pg) \<and> wf_ndarray (snd pg) \<and> shape (snd pg) = shape (fst pg)) net"

definition positive_rank :: "NeuralNet \<Rightarrow> bool" where
  "positive_rank net = list_all (\<lambda>pg. shape (fst pg) \<noteq> []) net"


text \<open>The vector that SGD adds to the parameter of a pair: \<open>- lr * g\<close> elementwise.\<close>

definition sgd_delta :: "real \<Rightarrow> ndarray \<times> ndarray \<Rightarrow> real list" where
  "sgd_delta l pg = map (\<lambda>x. - l * x) (data (snd pg))"

text \<open>
  The policies on which \<^verbatim>\<open>_compute_lr\<close> cannot raise once the counter is positive:
  a \<^verbatim>\<open>StepLR\<close> whose step size is not zero (the constructor demands at least 1),
  and an \<^verbatim>\<open>ExponentialLR\<close> whose decay rate is not negative, so that its powers
  are real.
\<close>

definition policy_ok :: "policy \<Rightarrow> bool" where
  "policy_ok p = (case p of StepLR n g \<Rightarrow> n \<noteq> 0 | ExponentialLR n r \<Rightarrow> 0 \<le> r | _ \<Rightarrow> True)"

section \<open>Auxiliary facts\<close>

lemma split_blocks_concat: "split_blocks (map length xss) (concat xss) = xss"
  by (induction xss) auto

lemma apply_blocks_split:
  assumes "\<forall>pg \<in> set net. shape (fst pg) \<noteq> []"
    and "pointer + sum_list (map (\<lambda>pg. prod_list (shape (fst pg))) net) \<le> length stp"
  shows "apply_blocks stp pointer net =
     Inr (map2 add_block net
            (split_blocks (map (\<lambda>pg. prod_list (shape (fst pg))) net) (drop pointer stp)))"
  using assms
proof (induction net arbitrary: pointer)
  case Nil
  then show ?case by simp
next
  case (Cons a net)
  obtain p g where a: "a = (p, g)" by (cases a)
  let ?n = "prod_list (shape p)"
  from Cons.prems a have ne: "shape p \<noteq> []" by simp
  from Cons.prems a have len: "pointer + ?n \<le> length stp" by simp
  have sl: "slice stp pointer (pointer + ?n) = take ?n (drop pointer stp)"
    by (simp add: slice_def)
  have l1: "length (take ?n (drop pointer stp)) = ?n" using len by simp
  have ih: "apply_blocks stp (pointer + ?n) net =
     Inr (map2 add_block net
            (split_blocks (map (\<lambda>pg. prod_list (shape (fst pg))) net) (drop (pointer + ?n) stp)))"
    using Cons.prems a by (intro Cons.IH) (auto simp: add.assoc)
  show ?case
    using ne l1
    by (simp add: a np_prod_def sl reshape_def iadd_def ih add_block_def add.commute)
qed

lemma broadcast_Scalar: "broadcast f (Scalar x) ys = Inr (map (f x) ys)"
  by (simp add: broadcast_def)

lemma broadcast_Vec_same:
  "length xs = length ys \<Longrightarrow> broadcast f (Vec xs) ys = Inr (map2 f xs ys)"
  by (simp add: broadcast_def)

lemma Adam_step_from_init:
  "Adam_compute_step \<lparr>lr = l, adam_b1 = b1, adam_b2 = b2, adam_eps = e,
       adam_t = 0, adam_m = Scalar 0, adam_v = Scalar 0\<rparr> g =
     Inr (\<lparr>lr = l, adam_b1 = b1, adam_b2 = b2, adam_eps = e, adam_t = 1,
           adam_m = Vec (map (\<lambda>x. (1 - b1) * x) g),
           adam_v = Vec (map (\<lambda>x. (1 - b2) * x\<^sup>2) g)\<rparr>,
          map2 (\<lambda>a b. - (l * sqrt (1 - b2) / (1 - b1)) * a / (sqrt b + e))
            (map (\<lambda>x. (1 - b1) * x) g) (map (\<lambda>x. (1 - b2) * x\<^sup>2) g))"
proof -
  have m: "broadcast (+) (tmul b1 (Scalar 0)) (map (\<lambda>x. (1 - b1) * x) g) =
      Inr (map (\<lambda>x. (1 - b1) * x) g)"
    by (simp add: tmul_def broadcast_Scalar)
  have v: "broadcast (+) (tmul b2 (Scalar 0)) (map (\<lambda>x. (1 - b2) * x\<^sup>2) g) =
      Inr (map (\<lambda>x. (1 - b2) * x\<^sup>2) g)"
    by (simp add: tmul_def broadcast_Scalar)
  have s: "broadcast (/) (Vec (map (\<lambda>x. - c * x) (map (\<lambda>x. (1 - b1) * x) g)))
        (map (\<lambda>x. sqrt x + e) (map (\<lambda>x. (1 - b2) * x\<^sup>2) g)) =
      Inr (map2 (\<lambda>a b. - c * a / (sqrt b + e))
            (map (\<lambda>x. (1 - b1) * x) g) (map (\<lambda>x. (1 - b2) * x\<^sup>2) g))" for c
    by (simp add: broadcast_Vec_same zip_map1 zip_map2 o_def split_def)
  show ?thesis
    unfolding Adam_compute_step_def Let_def
    by (simp only: Adam.simps Optimizer.simps m v s Adam_lr_t_def sum.case prod.case
        power_one_right add_0 One_nat_def[symmetric])
qed

lemma concat_split_blocks: "sum_list ns = length xs \<Longrightarrow> concat (split_blocks ns xs) = xs"
proof (induction ns arbitrary: xs)
  case Nil
  then show ?case by simp
next
  case (Cons n ns)
  then have "concat (split_blocks ns (drop n xs)) = drop n xs"
    by (intro Cons.IH) simp
  then show ?case by simp
qed

lemma length_split_blocks: "sum_list ns \<le> length xs \<Longrightarrow> map length (split_blocks ns xs) = ns"
proof (induction ns arbitrary: xs)
  case Nil
  then show ?case by simp
next
  case (Cons n ns)
  then have "map length (split_blocks ns (drop n xs)) = ns"
    by (intro Cons.IH) simp
  with Cons.prems show ?case by simp
qed

lemma block_sizes_well_shaped:
  "well_shaped net \<Longrightarrow> block_sizes net = map length (map (\<lambda>pg. data (snd pg)) net)"
  by (induction net) (auto simp: well_shaped_def block_sizes_def wf_ndarray_def)

lemma split_flat_grad:
  "well_shaped net \<Longrightarrow> split_blocks (block_sizes net) (flat_grad net) = map (\<lambda>pg. data (snd pg)) net"
  unfolding block_sizes_well_shaped flat_grad_def by (rule split_blocks_concat)

lemma sum_block_sizes: "well_shaped net \<Longrightarrow> sum_list (block_sizes net) = length (flat_grad net)"
  by (simp add: block_sizes_well_shaped flat_grad_def length_concat)

lemma Optimizer_step_blocks:
  assumes "net \<noteq> []" and "positive_rank net"
    and "compute_step opt (flat_grad net) = Inr (opt', stp)"
    and "sum_list (block_sizes net) \<le> length stp"
  shows "Optimizer_step compute_step opt net =
     Inr (opt', map2 add_block net (split_blocks (block_sizes net) stp))"
proof -
  have f: "map (\<lambda>(param, grad). np_ravel grad) net = map (\<lambda>pg. data (snd pg)) net"
    by (simp add: np_ravel_def split_def)
  have c: "np_concatenate (map (\<lambda>(param, grad). np_ravel grad) (get_params_and_grads net)) =
      Inr (flat_grad net)"
    using assms(1) by (simp add: np_concatenate_def get_params_and_grads_def f flat_grad_def)
  have a: "apply_blocks stp 0 (get_params_and_grads net) =
      Inr (map2 add_block net (split_blocks (block_sizes net) stp))"
    using assms(2,4) apply_blocks_split[of net 0 stp]
    by (simp add: get_params_and_grads_def positive_rank_def block_sizes_def list_all_iff)
  show ?thesis
    by (simp add: Optimizer_step_def c assms(3) a)
qed

lemma split_blocks_map: "split_blocks ns (map f xs) = map (map f) (split_blocks ns xs)"
  by (induction ns arbitrary: xs) (auto simp: take_map drop_map)

lemma map2_map_same: "map2 f xs (map g xs) = map (\<lambda>x. f x (g x)) xs"
  by (induction xs) auto

lemma SGD_step_once:
  assumes "net \<noteq> []" and "positive_rank net" and "well_shaped net"
  shows "Optimizer_step SGD_compute_step opt net =
     Inr (opt, map (\<lambda>pg. add_block pg (sgd_delta (lr opt) pg)) net)"
proof -
  let ?stp = "map (\<lambda>x. - lr opt * x) (flat_grad net)"
  have c: "SGD_compute_step opt (flat_grad net) = Inr (opt, ?stp)"
    by (simp add: SGD_compute_step_def)
  have l: "sum_list (block_sizes net) \<le> length ?stp"
    using assms(3) by (simp add: sum_block_sizes)
  have "split_blocks (block_sizes net) ?stp = map (sgd_delta (lr opt)) net"
    by (simp add: split_blocks_map split_flat_grad[OF assms(3)] sgd_delta_def)
  then show ?thesis
    using Optimizer_step_blocks[of net SGD_compute_step opt opt ?stp] assms(1,2) c l
    by (simp add: map2_map_same)
qed

lemma add_block_keeps:
  assumes "net \<noteq> []" and "positive_rank net" and "well_shaped net"
  shows "map (\<lambda>pg. add_block pg (sgd_delta l pg)) net \<noteq> [] \<and>
     positive_rank (map (\<lambda>pg. add_block pg (sgd_delta l pg)) net) \<and>
     well_shaped (map (\<lambda>pg. add_block pg (sgd_delta l pg)) net)"
  using assms
  by (auto simp: positive_rank_def well_shaped_def list_all_iff add_block_def sgd_delta_def
      wf_ndarray_def)

lemma Momentum_step_Scalar:
  "mom_acc opt = Scalar a \<Longrightarrow>
   Momentum_compute_step opt g =
     Inr (opt\<lparr>mom_acc := Vec (map (\<lambda>x. mom_momentum opt * a + x) g)\<rparr>,
          map (\<lambda>y. - lr opt * y) (map (\<lambda>x. mom_momentum opt * a + x) g))"
  by (simp add: Momentum_compute_step_def tmul_def broadcast_Scalar)

lemma Momentum_step_Vec:
  "mom_acc opt = Vec as \<Longrightarrow> length as = length g \<Longrightarrow>
   Momentum_compute_step opt g =
     Inr (opt\<lparr>mom_acc := Vec (map2 (\<lambda>a x. mom_momentum opt * a + x) as g)\<rparr>,
          map (\<lambda>y. - lr opt * y) (map2 (\<lambda>a x. mom_momentum opt * a + x) as g))"
  by (simp add: Momentum_compute_step_def tmul_def broadcast_Vec_same zip_map1 split_def)

lemma Momentum_zero_step:
  assumes "mom_momentum opt = 0"
    and "mom_acc opt = Scalar a \<or> (\<exists>as. mom_acc opt = Vec as \<and> length as = length g)"
  shows "Momentum_compute_step opt g = Inr (opt\<lparr>mom_acc := Vec g\<rparr>, map (\<lambda>x. - lr opt * x) g)"
proof -
  from assms(2) show ?thesis
  proof
    assume "mom_acc opt = Scalar a"
    then show ?thesis using Momentum_step_Scalar[of opt a g] assms(1) by simp
  next
    assume "\<exists>as. mom_acc opt = Vec as \<and> length as = length g"
    then obtain as where as: "mom_acc opt = Vec as" "length as = length g" by blast
    have "map2 (\<lambda>a x. 0 * a + x) as g = g"
      using as(2) by (induction as g rule: list_induct2) auto
    then show ?thesis using Momentum_step_Vec[OF as] assms(1) by simp
  qed
qed

lemma Momentum_zero_steps:
  assumes "mom_momentum opt = 0"
    and "mom_acc opt = Scalar a \<or> (\<exists>as. mom_acc opt = Vec as \<and> length as = n)"
    and "list_all (\<lambda>g. length g = n) gs"
  shows "compute_steps Momentum_compute_step opt gs =
     Inr (opt\<lparr>mom_acc := (if gs = [] then mom_acc opt else Vec (last gs))\<rparr>,
          map (map (\<lambda>x. - lr opt * x)) gs)"
  using assms
proof (induction gs arbitrary: opt a)
  case Nil
  then show ?case by simp
next
  case (Cons g gs)
  let ?opt' = "opt\<lparr>mom_acc := Vec g\<rparr>"
  from Cons.prems have n: "length g = n" by simp
  have st: "Momentum_compute_step opt g = Inr (?opt', map (\<lambda>x. - lr opt * x) g)"
    using Cons.prems(1,2) n by (intro Momentum_zero_step) auto
  have ih: "compute_steps Momentum_compute_step ?opt' gs =
     Inr (?opt'\<lparr>mom_acc := (if gs = [] then mom_acc ?opt' else Vec (last gs))\<rparr>,
          map (map (\<lambda>x. - lr ?opt' * x)) gs)"
    using Cons.prems n by (intro Cons.IH[of ?opt' 0]) auto
  show ?case by (simp add: st ih)
qed

lemma SGD_steps:
  "compute_steps SGD_compute_step opt gs = Inr (opt, map (map (\<lambda>x. - lr opt * x)) gs)"
  by (induction gs) (auto simp: SGD_compute_step_def)

lemma Optimizer_step_same_update:
  assumes "\<And>g. length g = length (flat_grad net) \<Longrightarrow> map_sum id snd (cs1 o1 g) = map_sum id snd (cs2 o2 g)"
  shows "map_sum id snd (Optimizer_step cs1 o1 net) = map_sum id snd (Optimizer_step cs2 o2 net)"
proof (cases "net = []")
  case True
  then show ?thesis by (simp add: Optimizer_step_def np_concatenate_def get_params_and_grads_def)
next
  case False
  have f: "map (\<lambda>(param, grad). np_ravel grad) net = map (\<lambda>pg. data (snd pg)) net"
    by (simp add: np_ravel_def split_def)
  have c: "np_concatenate (map (\<lambda>(param, grad). np_ravel grad) (get_params_and_grads net)) =
      Inr (flat_grad net)"
    using False by (simp add: np_concatenate_def get_params_and_grads_def f flat_grad_def)
  from assms[of "flat_grad net"] show ?thesis
    by (auto simp: Optimizer_step_def c split: sum.splits)
qed

lemma float_pow_nonneg: "0 \<le> x \<Longrightarrow> 0 < y \<Longrightarrow> float_pow x y = Inr (x powr y)"
  by (auto simp: float_pow_def)

lemma compute_lr_Exponential_le:
  assumes "policy s = ExponentialLR n r" and "0 \<le> r" and "0 < sched_t s" and "int (sched_t s) \<le> n"
  shows "compute_lr s optim = Inr (initial_lr s * r powr (real (sched_t s) / of_int n))"
proof -
  have "0 < real (sched_t s) / of_int n" using assms(3,4) by simp
  then show ?thesis
    using assms by (auto simp: compute_lr_def float_pow_nonneg)
qed

lemma compute_lr_Exponential_gt:
  "policy s = ExponentialLR n r \<Longrightarrow> n < int (sched_t s) \<Longrightarrow> compute_lr s optim = Inr (lr optim)"
  by (simp add: compute_lr_def get_current_lr_def)

lemma compute_lr_Linear:
  "policy s = LinearLR d f n st \<Longrightarrow>
   compute_lr s optim =
     Inr (if st < int (sched_t s) \<and> int (sched_t s) \<le> st + n
          then float_add (lr optim) d else lr optim)"
  by (simp add: compute_lr_def get_current_lr_def)

lemma LRScheduler_step_eq:
  "compute_lr (s\<lparr>sched_t := sched_t s + 1\<rparr>) optim = Inr r \<Longrightarrow>
   LRScheduler_step s optim = Inr (s\<lparr>sched_t := sched_t s + 1\<rparr>, optim\<lparr>lr := r\<rparr>, r)"
  by (simp add: LRScheduler_step_def Let_def get_current_lr_def)

lemma LRScheduler_steps_add:
  "LRScheduler_steps a s optim = Inr (s', optim') \<Longrightarrow>
   LRScheduler_steps (a + b) s optim = LRScheduler_steps b s' optim'"
proof (induction a arbitrary: s optim)
  case 0
  then show ?case by simp
next
  case (Suc a)
  then show ?case by (auto split: sum.splits)
qed

lemma Exponential_frozen:
  "policy s = ExponentialLR n r \<Longrightarrow> n \<le> int (sched_t s) \<Longrightarrow>
   LRScheduler_steps k s optim = Inr (s\<lparr>sched_t := sched_t s + k\<rparr>, optim)"
proof (induction k arbitrary: s)
  case 0
  then show ?case by simp
next
  case (Suc k)
  let ?s' = "s\<lparr>sched_t := sched_t s + 1\<rparr>"
  have c: "compute_lr ?s' optim = Inr (lr optim)"
    using Suc.prems by (intro compute_lr_Exponential_gt[of _ n r]) auto
  have st: "LRScheduler_step s optim = Inr (?s', optim, lr optim)"
    using LRScheduler_step_eq[OF c] by simp
  have "LRScheduler_steps k ?s' optim = Inr (?s'\<lparr>sched_t := sched_t ?s' + k\<rparr>, optim)"
    using Suc.prems by (intro Suc.IH) auto
  then show ?case by (simp add: st)
qed

lemma Linear_frozen:
  "policy s = LinearLR d f n st \<Longrightarrow> st + n \<le> int (sched_t s) \<Longrightarrow>
   LRScheduler_steps k s optim = Inr (s\<lparr>sched_t := sched_t s + k\<rparr>, optim)"
proof (induction k arbitrary: s)
  case 0
  then show ?case by simp
next
  case (Suc k)
  let ?s' = "s\<lparr>sched_t := sched_t s + 1\<rparr>"
  have c: "compute_lr ?s' optim = Inr (lr optim)"
    using Suc.prems compute_lr_Linear[of ?s' d f n st optim] by auto
  have st: "LRScheduler_step s optim = Inr (?s', optim, lr optim)"
    using LRScheduler_step_eq[OF c] by simp
  have "LRScheduler_steps k ?s' optim = Inr (?s'\<lparr>sched_t := sched_t ?s' + k\<rparr>, optim)"
    using Suc.prems by (intro Suc.IH) auto
  then show ?case by (simp add: st)
qed

lemma Exponential_example_10:
  "LRScheduler_steps 10 \<lparr>initial_lr = 1, sched_t = 0, policy = ExponentialLR 10 (1 / 2)\<rparr> \<lparr>lr = 1\<rparr> =
     Inr (\<lparr>initial_lr = 1, sched_t = 10, policy = ExponentialLR 10 (1 / 2)\<rparr>, \<lparr>lr = 1 / 2\<rparr>)"
  by (simp add: eval_nat_numeral LRScheduler_step_def compute_lr_def float_pow_def get_current_lr_def)

lemma LRScheduler_steps_numeral:
  "LRScheduler_steps (numeral k) s optim =
     (case LRScheduler_step s optim of
        Inl e \<Rightarrow> Inl e
      | Inr (s', optim', r) \<Rightarrow> LRScheduler_steps (pred_numeral k) s' optim')"
  by (simp add: numeral_eq_Suc)

lemma round_double_fifth: "round_double (- 1 / 5) = - (3602879701896397 / 2 ^ 54)"
  by (simp add: round_double_def binade_def pow2_def round_half_even_def Let_def)

lemma Linear_delta_example:
  "float_div (float_sub 0 1) (float_of_int 5) = - (3602879701896397 / 2 ^ 54)"
proof -
  have "float_sub 0 1 = - 1"
    by (simp add: float_sub_def round_double_def binade_def pow2_def round_half_even_def Let_def)
  moreover have "float_of_int 5 = 5"
    by (simp add: float_of_int_def round_double_def binade_def pow2_def round_half_even_def
        Let_def)
  ultimately show ?thesis
    using round_double_fifth by (simp add: float_div_def)
qed

lemma Linear_add_1: "float_add 1 (- (3602879701896397 / 2 ^ 54)) = 3602879701896397 / 2 ^ 52"
  by (simp add: float_add_def round_double_def binade_def pow2_def round_half_even_def Let_def)

lemma Linear_add_2:
  "float_add (3602879701896397 / 2 ^ 52) (- (3602879701896397 / 2 ^ 54)) =
     5404319552844596 / 2 ^ 53"
  by (simp add: float_add_def round_double_def binade_def pow2_def round_half_even_def Let_def)

lemma Linear_add_3:
  "float_add (5404319552844596 / 2 ^ 53) (- (3602879701896397 / 2 ^ 54)) =
     7205759403792795 / 2 ^ 54"
  by (simp add: float_add_def round_double_def binade_def pow2_def round_half_even_def Let_def)

lemma Linear_add_4:
  "float_add (7205759403792795 / 2 ^ 54) (- (3602879701896397 / 2 ^ 54)) =
     3602879701896398 / 2 ^ 54"
  by (simp add: float_add_def round_double_def binade_def pow2_def round_half_even_def Let_def)

lemma Linear_add_5:
  "float_add (3602879701896398 / 2 ^ 54) (- (3602879701896397 / 2 ^ 54)) = 1 / 2 ^ 54"
  by (simp add: float_add_def round_double_def binade_def pow2_def round_half_even_def Let_def)

lemma Linear_step_ramp:
  assumes "st < int t + 1" and "int t + 1 \<le> st + n"
  shows "LRScheduler_step \<lparr>initial_lr = i, sched_t = t, policy = LinearLR d f n st\<rparr> \<lparr>lr = x\<rparr> =
     Inr (\<lparr>initial_lr = i, sched_t = t + 1, policy = LinearLR d f n st\<rparr>,
          \<lparr>lr = float_add x d\<rparr>, float_add x d)"
  using assms by (simp add: LRScheduler_step_def compute_lr_def get_current_lr_def)

lemma Linear_example:
  "map (\<lambda>k. LRScheduler_steps k
         \<lparr>initial_lr = 1, sched_t = 0, policy = LinearLR (- (3602879701896397 / 2 ^ 54)) 0 5 0\<rparr>
         \<lparr>lr = 1\<rparr>)
      [1, 2, 3, 4, 5] =
   map (\<lambda>(k, x). Inr (\<lparr>initial_lr = 1, sched_t = k,
                        policy = LinearLR (- (3602879701896397 / 2 ^ 54)) 0 5 0\<rparr>, \<lparr>lr = x\<rparr>))
      [(1, 3602879701896397 / 2 ^ 52), (2, 5404319552844596 / 2 ^ 53),
       (3, 7205759403792795 / 2 ^ 54), (4, 3602879701896398 / 2 ^ 54), (5, 1 / 2 ^ 54)]"
proof -
  let ?d = "- (3602879701896397 / 2 ^ 54) :: real"
  let ?s = "\<lambda>k. \<lparr>initial_lr = 1, sched_t = k, policy = LinearLR ?d 0 5 0\<rparr>"
  have 1: "LRScheduler_step (?s 0) \<lparr>lr = 1\<rparr> =
      Inr (?s 1, \<lparr>lr = 3602879701896397 / 2 ^ 52\<rparr>, 3602879701896397 / 2 ^ 52)"
    using Linear_step_ramp[of 0 0 5 1 ?d 0 1] Linear_add_1 by simp
  have 2: "LRScheduler_step (?s 1) \<lparr>lr = 3602879701896397 / 2 ^ 52\<rparr> =
      Inr (?s 2, \<lparr>lr = 5404319552844596 / 2 ^ 53\<rparr>, 5404319552844596 / 2 ^ 53)"
    using Linear_step_ramp[of 0 1 5 1 ?d 0 "3602879701896397 / 2 ^ 52"] Linear_add_2 by simp
  have 3: "LRScheduler_step (?s 2) \<lparr>lr = 5404319552844596 / 2 ^ 53\<rparr> =
      Inr (?s 3, \<lparr>lr = 7205759403792795 / 2 ^ 54\<rparr>, 7205759403792795 / 2 ^ 54)"
    using Linear_step_ramp[of 0 2 5 1 ?d 0 "5404319552844596 / 2 ^ 53"] Linear_add_3 by simp
  have 4: "LRScheduler_step (?s 3) \<lparr>lr = 7205759403792795 / 2 ^ 54\<rparr> =
      Inr (?s 4, \<lparr>lr = 3602879701896398 / 2 ^ 54\<rparr>, 3602879701896398 / 2 ^ 54)"
    using Linear_step_ramp[of 0 3 5 1 ?d 0 "7205759403792795 / 2 ^ 54"] Linear_add_4 by simp
  have 5: "LRScheduler_step (?s 4) \<lparr>lr = 3602879701896398 / 2 ^ 54\<rparr> =
      Inr (?s 5, \<lparr>lr = 1 / 2 ^ 54\<rparr>, 1 / 2 ^ 54)"
    using Linear_step_ramp[of 0 4 5 1 ?d 0 "3602879701896398 / 2 ^ 54"] Linear_add_5 by simp
  show ?thesis
    using 1 2 3 4 5 by (simp add: LRScheduler_steps_numeral)
qed

lemma Linear_example_5:
  "LRScheduler_steps 5
     \<lparr>initial_lr = 1, sched_t = 0, policy = LinearLR (- (3602879701896397 / 2 ^ 54)) 0 5 0\<rparr>
     \<lparr>lr = 1\<rparr> =
   Inr (\<lparr>initial_lr = 1, sched_t = 5, policy = LinearLR (- (3602879701896397 / 2 ^ 54)) 0 5 0\<rparr>,
        \<lparr>lr = 1 / 2 ^ 54\<rparr>)"
  using Linear_example by simp

lemma compute_lr_ok:
  assumes "policy_ok (policy s)" and "0 < sched_t s"
  shows "\<exists>x. compute_lr s optim = Inr x"
proof (cases "policy s")
  case (StepLR n g)
  with assms show ?thesis by (simp add: compute_lr_def policy_ok_def)
next
  case (MultiStepLR ms g)
  then show ?thesis by (simp add: compute_lr_def)
next
  case (ExponentialLR n r)
  show ?thesis
  proof (cases "int (sched_t s) \<le> n")
    case True
    with assms ExponentialLR show ?thesis
      using compute_lr_Exponential_le[of s n r optim] by (simp add: policy_ok_def)
  next
    case False
    with ExponentialLR show ?thesis
      using compute_lr_Exponential_gt[of s n r optim] by simp
  qed
next
  case (LinearLR d f n st)
  then show ?thesis using compute_lr_Linear[of s d f n st optim] by simp
qed

lemma LRScheduler_step_result:
  assumes "LRScheduler_step s optim = Inr (s', optim', x)"
  shows "s' = s\<lparr>sched_t := sched_t s + 1\<rparr> \<and> optim' = optim\<lparr>lr := x\<rparr> \<and>
    compute_lr (s\<lparr>sched_t := sched_t s + 1\<rparr>) optim = Inr x"
  using assms
  by (auto simp: LRScheduler_step_def Let_def get_current_lr_def split: sum.splits)

lemma LRScheduler_steps_ok:
  assumes "policy_ok (policy s)"
  shows "\<exists>s' optim'. LRScheduler_steps k s optim = Inr (s', optim') \<and>
    sched_t s' = sched_t s + k \<and> policy s' = policy s \<and> initial_lr s' = initial_lr s \<and>
    Optimizer.more optim' = Optimizer.more optim"
  using assms
proof (induction k arbitrary: s optim)
  case 0
  then show ?case by simp
next
  case (Suc k)
  let ?s1 = "s\<lparr>sched_t := sched_t s + 1\<rparr>"
  from Suc.prems obtain x where x: "compute_lr ?s1 optim = Inr x"
    using compute_lr_ok[of ?s1 optim] by auto
  have st: "LRScheduler_step s optim = Inr (?s1, optim\<lparr>lr := x\<rparr>, x)"
    by (rule LRScheduler_step_eq[OF x])
  from Suc.prems have "policy_ok (policy ?s1)" by simp
  from Suc.IH[OF this, of "optim\<lparr>lr := x\<rparr>"] obtain s' optim' where
    r: "LRScheduler_steps k ?s1 (optim\<lparr>lr := x\<rparr>) = Inr (s', optim')"
      "sched_t s' = sched_t ?s1 + k" "policy s' = policy ?s1" "initial_lr s' = initial_lr ?s1"
      "Optimizer.more optim' = Optimizer.more (optim\<lparr>lr := x\<rparr>)"
    by blast
  then show ?case by (simp add: st)
qed

lemma init_facts:
  assumes "StepLR_init optim n g = Inr s0 \<or> MultiStepLR_init optim ms g = Inr s0 \<or>
    ExponentialLR_init optim n r = Inr s0 \<or> LinearLR_init optim n f st = Inr s0"
  shows "sched_t s0 = 0 \<and> initial_lr s0 = lr optim \<and> (0 \<le> r \<longrightarrow> policy_ok (policy s0))"
  using assms
  by (auto simp: StepLR_init_def MultiStepLR_init_def ExponentialLR_init_def LinearLR_init_def
      LRScheduler_init_def get_current_lr_def policy_ok_def Let_def split: if_splits sum.splits)

section \<open>Construction\<close>

text \<open>
  Claim C3, at the input where the code departs from it. The constructor of
  \<^verbatim>\<open>MultiStepLR\<close> converts every milestone with \<^verbatim>\<open>int\<close> before it
  checks anything, so a list of floats such as \<^verbatim>\<open>[1.5, 3]\<close> is accepted and
  stored as \<^verbatim>\<open>[1, 3]\<close>: the check that every element is an int comes after the
  conversion and can no longer fail. The other half of the claim holds: the decreasing
  list \<^verbatim>\<open>[5, 3]\<close> is rejected with an AssertionError.
\<close>

theorem MultiStepLR_init_accepts_float_milestones:
  "MultiStepLR_init \<lparr>lr = 1\<rparr> [PyFloat (3 / 2), PyInt 3] (1 / 10) =
     Inr \<lparr>initial_lr = 1, sched_t = 0, policy = MultiStepLR [1, 3] (1 / 10)\<rparr> \<and>
   MultiStepLR_init \<lparr>lr = 1\<rparr> [PyInt 5, PyInt 3] (1 / 10) = Inl AssertionError"
  by (simp add: MultiStepLR_init_def py_int_def isinstance_int_def LRScheduler_init_def
      get_current_lr_def)

text \<open>
  Claim C4 as the specification states it fails: a non-positive \<^verbatim>\<open>lr\<close> is accepted.
  The constructions \<^verbatim>\<open>SGD(-1)\<close> and \<^verbatim>\<open>Momentum(0, 0.9)\<close> succeed.
\<close>

theorem nonpositive_lr_accepted_counterexample:
  "SGD_init (- 1) = Inr \<lparr>lr = - 1\<rparr> \<and>
   Momentum_init 0 (9 / 10) = Inr \<lparr>lr = 0, mom_momentum = 9 / 10, mom_acc = Scalar 0\<rparr>"
  by (simp add: Optimizer_init_def SGD_init_def Momentum_init_def)

text \<open>
  Claim C4, amended: the construction of every optimizer succeeds for every \<^verbatim>\<open>lr\<close>,
  positive or not, and stores it unchanged next to the initial state; no constructor
  validates \<^verbatim>\<open>lr\<close>.
\<close>

theorem optimizer_init_accepts_any_lr:
  "Optimizer_init l = Inr \<lparr>lr = l\<rparr> \<and>
   SGD_init l = Inr \<lparr>lr = l\<rparr> \<and>
   Adam_init l beta1 beta2 epsilon =
     Inr \<lparr>lr = l, adam_b1 = beta1, adam_b2 = beta2, adam_eps = epsilon,
          adam_t = 0, adam_m = Scalar 0, adam_v = Scalar 0\<rparr> \<and>
   RMSProp_init l decay momentum epsilon =
     Inr \<lparr>lr = l, rms_decay = decay, rms_momentum = momentum, rms_eps = epsilon,
          rms_ms = Scalar 0, rms_mom = Scalar 0\<rparr> \<and>
   Momentum_init l momentum = Inr \<lparr>lr = l, mom_momentum = momentum, mom_acc = Scalar 0\<rparr>"
  by (simp add: Optimizer_init_def SGD_init_def Adam_init_def RMSProp_init_def Momentum_init_def)

section \<open>Adam\<close>

text \<open>
  Claim C5: an Adam optimizer built with \<open>\<beta>1 = 0.9\<close> and \<open>\<beta>2 = 0.999\<close> answers its
  first \<^verbatim>\<open>_compute_step\<close> on a flat gradient \<open>g\<close> as follows. The counter is 1, the
  bias-corrected rate is \<open>lr * sqrt (1 - \<beta>2) / (1 - \<beta>1)\<close>, the first moment is
  \<open>(1 - \<beta>1) * g\<close>, the second moment is \<open>(1 - \<beta>2) * g\<^sup>2\<close> elementwise, and the step
  returned is \<open>- lr_t * m / (sqrt v + eps)\<close> elementwise; the other fields keep their values.
\<close>

theorem Adam_first_step:
  "\<exists>opt opt'. Adam_init l (9 / 10) (999 / 1000) epsilon = Inr opt \<and>
     Adam_compute_step opt g =
       Inr (opt', map2 (\<lambda>a b. - Adam_lr_t opt 1 * a / (sqrt b + epsilon))
                    (map (\<lambda>x. (1 - 9 / 10) * x) g) (map (\<lambda>x. (1 - 999 / 1000) * x\<^sup>2) g)) \<and>
     Adam_lr_t opt 1 = l * sqrt (1 - 999 / 1000) / (1 - 9 / 10) \<and>
     adam_t opt' = 1 \<and>
     adam_m opt' = Vec (map (\<lambda>x. (1 - 9 / 10) * x) g) \<and>
     adam_v opt' = Vec (map (\<lambda>x. (1 - 999 / 1000) * x\<^sup>2) g) \<and>
     lr opt' = l \<and> adam_b1 opt' = 9 / 10 \<and> adam_b2 opt' = 999 / 1000 \<and> adam_eps opt' = epsilon"
proof -
  let ?opt = "\<lparr>lr = l, adam_b1 = 9 / 10, adam_b2 = 999 / 1000, adam_eps = epsilon,
       adam_t = 0, adam_m = Scalar 0, adam_v = Scalar 0\<rparr>"
  let ?opt' = "\<lparr>lr = l, adam_b1 = 9 / 10, adam_b2 = 999 / 1000, adam_eps = epsilon, adam_t = 1,
           adam_m = Vec (map (\<lambda>x. (1 - 9 / 10) * x) g),
           adam_v = Vec (map (\<lambda>x. (1 - 999 / 1000) * x\<^sup>2) g)\<rparr>"
  have lrt: "Adam_lr_t ?opt 1 = l * sqrt (1 - 999 / 1000) / (1 - 9 / 10)"
    unfolding Adam_lr_t_def by (simp only: Adam.simps Optimizer.simps power_one_right)
  have i: "Adam_init l (9 / 10) (999 / 1000) epsilon = Inr ?opt"
    by (simp only: Adam_init_def)
  have c: "Adam_compute_step ?opt g =
       Inr (?opt', map2 (\<lambda>a b. - Adam_lr_t ?opt 1 * a / (sqrt b + epsilon))
                    (map (\<lambda>x. (1 - 9 / 10) * x) g) (map (\<lambda>x. (1 - 999 / 1000) * x\<^sup>2) g))"
    unfolding lrt by (rule Adam_step_from_init)
  have r: "adam_t ?opt' = 1 \<and>
     adam_m ?opt' = Vec (map (\<lambda>x. (1 - 9 / 10) * x) g) \<and>
     adam_v ?opt' = Vec (map (\<lambda>x. (1 - 999 / 1000) * x\<^sup>2) g) \<and>
     lr ?opt' = l \<and> adam_b1 ?opt' = 9 / 10 \<and> adam_b2 ?opt' = 999 / 1000 \<and>
     adam_eps ?opt' = epsilon"
    by (simp only: Adam.simps Optimizer.simps simp_thms)
  from i c lrt r show ?thesis by blast
qed


section \<open>The flatten and unflatten passes of \<^verbatim>\<open>Optimizer.step\<close>\<close>

text \<open>
  Claim C1 as the specification states it fails on two kinds of input.
  \<^verbatim>\<open>Optimizer.step\<close> raises ValueError on a network without parameters, because
  \<^verbatim>\<open>np.concatenate\<close> rejects an empty sequence, and it raises TypeError on a
  parameter of shape \<^verbatim>\<open>()\<close>, because \<^verbatim>\<open>np.prod(())\<close> is the float
  \<^verbatim>\<open>1.0\<close> and cannot bound a slice.
\<close>

theorem Optimizer_step_degenerate_counterexample:
  "Optimizer_step SGD_compute_step \<lparr>lr = 1\<rparr> [] = Inl ValueError \<and>
   Optimizer_step SGD_compute_step \<lparr>lr = 1\<rparr>
     [(\<lparr>shape = [], data = [1]\<rparr>, \<lparr>shape = [], data = [2]\<rparr>)] = Inl TypeError"
  by (simp add: Optimizer_step_def np_concatenate_def get_params_and_grads_def np_ravel_def
      SGD_compute_step_def np_prod_def)


text \<open>
  Claim C1, amended. For every non-empty sequence of (parameter, gradient) pairs of
  well-formed arrays with matching shapes of rank at least one, and every
  \<^verbatim>\<open>_compute_step\<close> that answers the flat gradient with an update vector of the
  same length: \<^verbatim>\<open>Optimizer.step\<close> passes the concatenation of the flattened
  gradients, in iteration order, to \<^verbatim>\<open>_compute_step\<close>, cuts the update vector into
  consecutive blocks whose sizes are the element counts of the parameters in the same
  order, and adds each block to its parameter, which keeps its shape. The blocks together
  are the whole update vector. Cutting the flat gradient itself in this way and giving each
  block the shape of its parameter returns the gradients as they were.
\<close>

theorem Optimizer_step_flatten_unflatten:
  assumes "net \<noteq> []" and "positive_rank net" and "well_shaped net"
    and "compute_step opt (flat_grad net) = Inr (opt', stp)"
    and "length stp = length (flat_grad net)"
  shows "Optimizer_step compute_step opt net =
           Inr (opt', map2 add_block net (split_blocks (block_sizes net) stp)) \<and>
         concat (split_blocks (block_sizes net) stp) = stp \<and>
         map length (split_blocks (block_sizes net) stp) = block_sizes net \<and>
         map2 (\<lambda>pg b. \<lparr>shape = shape (fst pg), data = b\<rparr>) net
              (split_blocks (block_sizes net) (flat_grad net)) = map snd net"
proof -
  have s: "sum_list (block_sizes net) = length stp"
    using assms(3,5) by (simp add: sum_block_sizes)
  have r: "map2 (\<lambda>pg b. \<lparr>shape = shape (fst pg), data = b\<rparr>) net
              (map (\<lambda>pg. data (snd pg)) net) = map snd net"
    using assms(3) by (induction net) (auto simp: well_shaped_def)
  show ?thesis
    using Optimizer_step_blocks[of net compute_step opt opt' stp] assms(1,2,4) s
    by (simp add: concat_split_blocks length_split_blocks split_flat_grad[OF assms(3)] r)
qed


text \<open>
  Witness for C1: a network of a vector of two elements and a 1-by-1 matrix, updated by SGD
  with rate 1.
\<close>

theorem Optimizer_step_flatten_unflatten_witness:
  "Optimizer_step SGD_compute_step \<lparr>lr = 1\<rparr>
     [(\<lparr>shape = [2], data = [1, 2]\<rparr>, \<lparr>shape = [2], data = [3, 4]\<rparr>),
      (\<lparr>shape = [1, 1], data = [5]\<rparr>, \<lparr>shape = [1, 1], data = [6]\<rparr>)] =
   Inr (\<lparr>lr = 1\<rparr>,
     [(\<lparr>shape = [2], data = [- 2, - 2]\<rparr>, \<lparr>shape = [2], data = [3, 4]\<rparr>),
      (\<lparr>shape = [1, 1], data = [- 1]\<rparr>, \<lparr>shape = [1, 1], data = [6]\<rparr>)])"
  using Optimizer_step_flatten_unflatten[of
     "[(\<lparr>shape = [2], data = [1, 2]\<rparr>, \<lparr>shape = [2], data = [3, 4]\<rparr>),
      (\<lparr>shape = [1, 1], data = [5]\<rparr>, \<lparr>shape = [1, 1], data = [6]\<rparr>)]"
     SGD_compute_step "\<lparr>lr = 1\<rparr>" "\<lparr>lr = 1\<rparr>" "[- 3, - 4, - 6]"]
  by (simp add: positive_rank_def well_shaped_def wf_ndarray_def flat_grad_def block_sizes_def
      SGD_compute_step_def add_block_def)



section \<open>SGD\<close>

text \<open>
  Claim C8 as the specification states it fails on the same two kinds of input as C1:
  a call of \<^verbatim>\<open>step\<close> on a network with a parameter of shape \<^verbatim>\<open>()\<close>
  raises TypeError, and a call on a network without parameters raises ValueError.
\<close>

theorem SGD_step_degenerate_counterexample:
  "Optimizer_step SGD_compute_step \<lparr>lr = 1 / 2\<rparr>
     [(\<lparr>shape = [2], data = [1, 2]\<rparr>, \<lparr>shape = [2], data = [4, 6]\<rparr>),
      (\<lparr>shape = [], data = [3]\<rparr>, \<lparr>shape = [], data = [8]\<rparr>)] = Inl TypeError \<and>
   Optimizer_step SGD_compute_step \<lparr>lr = 1 / 2\<rparr> [] = Inl ValueError"
  by (simp add: Optimizer_step_def np_concatenate_def get_params_and_grads_def np_ravel_def
      SGD_compute_step_def np_prod_def slice_def reshape_def iadd_def)


text \<open>
  Claim C8, amended. For an SGD optimizer and every non-empty network of well-formed
  parameters and gradients with matching shapes of rank at least one, a call of
  \<^verbatim>\<open>step\<close> adds to each parameter exactly \<open>- lr * g\<close>, where \<open>g\<close> is the gradient
  paired with it (its block of the flat gradient), and leaves the optimizer as it was. A
  second call with the same gradients adds the same vectors again: SGD keeps no state, and
  \<^verbatim>\<open>_compute_step\<close> returns \<open>- lr * g\<close> for every flat gradient \<open>g\<close>.
\<close>

theorem SGD_step_delta:
  assumes "net \<noteq> []" and "positive_rank net" and "well_shaped net"
  shows "Optimizer_step SGD_compute_step opt net =
           Inr (opt, map (\<lambda>pg. add_block pg (sgd_delta (lr opt) pg)) net) \<and>
         Optimizer_step SGD_compute_step opt (map (\<lambda>pg. add_block pg (sgd_delta (lr opt) pg)) net) =
           Inr (opt, map (\<lambda>pg. add_block (add_block pg (sgd_delta (lr opt) pg)) (sgd_delta (lr opt) pg)) net) \<and>
         SGD_compute_step opt g = Inr (opt, map (\<lambda>x. - lr opt * x) g)"
proof -
  let ?net' = "map (\<lambda>pg. add_block pg (sgd_delta (lr opt) pg)) net"
  have k: "?net' \<noteq> [] \<and> positive_rank ?net' \<and> well_shaped ?net'"
    using assms by (rule add_block_keeps)
  have d: "sgd_delta l (add_block pg b) = sgd_delta l pg" for l pg b
    by (simp add: sgd_delta_def add_block_def)
  have "Optimizer_step SGD_compute_step opt ?net' =
     Inr (opt, map (\<lambda>pg. add_block pg (sgd_delta (lr opt) pg)) ?net')"
    using k by (intro SGD_step_once) auto
  then have two: "Optimizer_step SGD_compute_step opt ?net' =
     Inr (opt, map (\<lambda>pg. add_block (add_block pg (sgd_delta (lr opt) pg)) (sgd_delta (lr opt) pg)) net)"
    by (simp add: o_def d)
  show ?thesis
    using SGD_step_once[OF assms, of opt] two by (simp add: SGD_compute_step_def)
qed


text \<open>Witness for C8: one parameter of two elements, rate 0.5, two calls.\<close>

theorem SGD_step_delta_witness:
  "Optimizer_step SGD_compute_step \<lparr>lr = 1 / 2\<rparr>
     [(\<lparr>shape = [2], data = [1, 2]\<rparr>, \<lparr>shape = [2], data = [4, 6]\<rparr>)] =
   Inr (\<lparr>lr = 1 / 2\<rparr>, [(\<lparr>shape = [2], data = [- 1, - 1]\<rparr>, \<lparr>shape = [2], data = [4, 6]\<rparr>)]) \<and>
   Optimizer_step SGD_compute_step \<lparr>lr = 1 / 2\<rparr>
     [(\<lparr>shape = [2], data = [- 1, - 1]\<rparr>, \<lparr>shape = [2], data = [4, 6]\<rparr>)] =
   Inr (\<lparr>lr = 1 / 2\<rparr>, [(\<lparr>shape = [2], data = [- 3, - 4]\<rparr>, \<lparr>shape = [2], data = [4, 6]\<rparr>)])"
  using SGD_step_delta[of "[(\<lparr>shape = [2], data = [1, 2]\<rparr>, \<lparr>shape = [2], data = [4, 6]\<rparr>)]"
     "\<lparr>lr = 1 / 2\<rparr>" "[]"]
  by (simp add: positive_rank_def well_shaped_def wf_ndarray_def add_block_def sgd_delta_def)



section \<open>Momentum\<close>

text \<open>
  Claim C7. A call of \<^verbatim>\<open>_compute_step\<close> of a Momentum optimizer with gradient \<open>g\<close>
  sets the accumulator to \<open>momentum * acc + g\<close> elementwise and returns \<open>- lr * acc\<close> for
  the new accumulator: from a scalar accumulator, as the initial 0 is, and from an
  accumulator that has the length of the gradient, as the data model demands. From the
  initial state, the first call with \<open>g\<close> leaves the accumulator \<open>g\<close>, and the second call
  with the same \<open>g\<close> leaves the accumulator \<open>momentum * g + g\<close> and returns
  \<open>- lr * (momentum * g + g)\<close>.
\<close>

theorem Momentum_accumulates:
  "(mom_acc opt = Scalar a \<longrightarrow>
      Momentum_compute_step opt g =
        Inr (opt\<lparr>mom_acc := Vec (map (\<lambda>x. mom_momentum opt * a + x) g)\<rparr>,
             map (\<lambda>y. - lr opt * y) (map (\<lambda>x. mom_momentum opt * a + x) g))) \<and>
   (mom_acc opt = Vec as \<and> length as = length g \<longrightarrow>
      Momentum_compute_step opt g =
        Inr (opt\<lparr>mom_acc := Vec (map2 (\<lambda>a x. mom_momentum opt * a + x) as g)\<rparr>,
             map (\<lambda>y. - lr opt * y) (map2 (\<lambda>a x. mom_momentum opt * a + x) as g))) \<and>
   (\<exists>opt0 opt1 opt2.
      Momentum_init l mu = Inr opt0 \<and> mom_acc opt0 = Scalar 0 \<and>
      Momentum_compute_step opt0 g = Inr (opt1, map (\<lambda>x. - l * x) g) \<and>
      mom_acc opt1 = Vec g \<and>
      Momentum_compute_step opt1 g = Inr (opt2, map (\<lambda>x. - l * (mu * x + x)) g) \<and>
      mom_acc opt2 = Vec (map (\<lambda>x. mu * x + x) g) \<and>
      lr opt2 = l \<and> mom_momentum opt2 = mu)"
proof -
  let ?opt0 = "\<lparr>lr = l, mom_momentum = mu, mom_acc = Scalar 0\<rparr>"
  let ?opt1 = "\<lparr>lr = l, mom_momentum = mu, mom_acc = Vec g\<rparr>"
  let ?opt2 = "\<lparr>lr = l, mom_momentum = mu, mom_acc = Vec (map (\<lambda>x. mu * x + x) g)\<rparr>"
  have i: "Momentum_init l mu = Inr ?opt0"
    by (simp add: Momentum_init_def)
  have s1: "Momentum_compute_step ?opt0 g = Inr (?opt1, map (\<lambda>x. - l * x) g)"
    using Momentum_step_Scalar[of ?opt0 0 g] by simp
  have z: "map2 (\<lambda>a x. mu * a + x) g g = map (\<lambda>x. mu * x + x) g"
    by (induction g) auto
  have s2: "Momentum_compute_step ?opt1 g = Inr (?opt2, map (\<lambda>x. - l * (mu * x + x)) g)"
    using Momentum_step_Vec[of ?opt1 g g] by (simp add: z o_def)
  have third: "\<exists>opt0 opt1 opt2.
      Momentum_init l mu = Inr opt0 \<and> mom_acc opt0 = Scalar 0 \<and>
      Momentum_compute_step opt0 g = Inr (opt1, map (\<lambda>x. - l * x) g) \<and>
      mom_acc opt1 = Vec g \<and>
      Momentum_compute_step opt1 g = Inr (opt2, map (\<lambda>x. - l * (mu * x + x)) g) \<and>
      mom_acc opt2 = Vec (map (\<lambda>x. mu * x + x) g) \<and>
      lr opt2 = l \<and> mom_momentum opt2 = mu"
    using i s1 s2 by force
  show ?thesis
    using Momentum_step_Scalar[of opt a g] Momentum_step_Vec[of opt as g] third by blast
qed


text \<open>
  Witness for C7: momentum 0.5 and rate 0.1, from the accumulator \<open>[4, 6]\<close> and from the
  scalar 0, with the gradient \<open>[2, 2]\<close>.
\<close>

theorem Momentum_accumulates_witness:
  "Momentum_compute_step \<lparr>lr = 1 / 10, mom_momentum = 1 / 2, mom_acc = Vec [4, 6]\<rparr> [2, 2] =
     Inr (\<lparr>lr = 1 / 10, mom_momentum = 1 / 2, mom_acc = Vec [4, 5]\<rparr>, [- (2 / 5), - (1 / 2)]) \<and>
   Momentum_compute_step \<lparr>lr = 1 / 10, mom_momentum = 1 / 2, mom_acc = Scalar 0\<rparr> [2, 2] =
     Inr (\<lparr>lr = 1 / 10, mom_momentum = 1 / 2, mom_acc = Vec [2, 2]\<rparr>, [- (1 / 5), - (1 / 5)])"
  using Momentum_accumulates[of "\<lparr>lr = 1 / 10, mom_momentum = 1 / 2, mom_acc = Vec [4, 6]\<rparr>"
      0 "[2, 2]" "[4, 6]" 0 0]
    Momentum_accumulates[of "\<lparr>lr = 1 / 10, mom_momentum = 1 / 2, mom_acc = Scalar 0\<rparr>"
      0 "[2, 2]" "[]" 0 0]
  by simp


text \<open>
  Claim C10 as the specification states it fails on a sequence of flat gradients whose
  length changes: after a gradient of length 2 the accumulator of the Momentum optimizer
  has length 2, and a gradient of length 3 cannot be broadcast against it, so the second
  call raises ValueError where SGD returns \<open>- lr * g\<close>.
\<close>

theorem Momentum_zero_length_change_counterexample:
  "compute_steps Momentum_compute_step \<lparr>lr = 1, mom_momentum = 0, mom_acc = Scalar 0\<rparr>
      [[1, 2], [1, 2, 3]] = Inl ValueError \<and>
   compute_steps SGD_compute_step \<lparr>lr = 1\<rparr> [[1, 2], [1, 2, 3]] =
     Inr (\<lparr>lr = 1\<rparr>, [[- 1, - 2], [- 1, - 2, - 3]])"
  by (simp add: Momentum_compute_step_def SGD_compute_step_def tmul_def broadcast_def)

text \<open>
  Claim C10, amended. A Momentum optimizer built with momentum 0 behaves as SGD with the
  same rate on every sequence of flat gradients of one common length: each
  \<^verbatim>\<open>_compute_step\<close> returns \<open>- lr * g\<close> for the gradient \<open>g\<close> of that call, as SGD
  does, and the accumulator is the latest gradient. Hence \<^verbatim>\<open>step\<close> of either
  optimizer leaves the same parameters, or raises the same exception, on every network
  whose flat gradient has the length of the accumulator.
\<close>

theorem Momentum_zero_is_SGD:
  assumes "list_all (\<lambda>g. length g = n) gs"
  shows "(\<exists>m0 m' s0.
            Momentum_init l 0 = Inr m0 \<and> SGD_init l = Inr s0 \<and>
            compute_steps Momentum_compute_step m0 gs = Inr (m', map (map (\<lambda>x. - l * x)) gs) \<and>
            compute_steps SGD_compute_step s0 gs = Inr (s0, map (map (\<lambda>x. - l * x)) gs) \<and>
            (gs \<noteq> [] \<longrightarrow> mom_acc m' = Vec (last gs))) \<and>
         (mom_momentum opt = 0 \<and>
          (mom_acc opt = Scalar a \<or> (\<exists>as. mom_acc opt = Vec as \<and> length as = length (flat_grad net))) \<longrightarrow>
            map_sum id snd (Optimizer_step Momentum_compute_step opt net) =
            map_sum id snd (Optimizer_step SGD_compute_step \<lparr>lr = lr opt\<rparr> net))"
proof -
  let ?m0 = "\<lparr>lr = l, mom_momentum = 0, mom_acc = Scalar 0\<rparr>"
  have i: "Momentum_init l 0 = Inr ?m0" "SGD_init l = Inr \<lparr>lr = l\<rparr>"
    by (simp_all add: Momentum_init_def SGD_init_def Optimizer_init_def)
  have m: "compute_steps Momentum_compute_step ?m0 gs =
     Inr (?m0\<lparr>mom_acc := (if gs = [] then mom_acc ?m0 else Vec (last gs))\<rparr>,
          map (map (\<lambda>x. - lr ?m0 * x)) gs)"
    using assms by (intro Momentum_zero_steps[of ?m0 0 n]) auto
  have s: "compute_steps SGD_compute_step \<lparr>lr = l\<rparr> gs = Inr (\<lparr>lr = l\<rparr>, map (map (\<lambda>x. - l * x)) gs)"
    using SGD_steps[of "\<lparr>lr = l\<rparr>" gs] by simp
  have first: "\<exists>m0 m' s0.
            Momentum_init l 0 = Inr m0 \<and> SGD_init l = Inr s0 \<and>
            compute_steps Momentum_compute_step m0 gs = Inr (m', map (map (\<lambda>x. - l * x)) gs) \<and>
            compute_steps SGD_compute_step s0 gs = Inr (s0, map (map (\<lambda>x. - l * x)) gs) \<and>
            (gs \<noteq> [] \<longrightarrow> mom_acc m' = Vec (last gs))"
    using i m s by force
  have second: "map_sum id snd (Optimizer_step Momentum_compute_step opt net) =
            map_sum id snd (Optimizer_step SGD_compute_step \<lparr>lr = lr opt\<rparr> net)"
    if h: "mom_momentum opt = 0 \<and>
          (mom_acc opt = Scalar a \<or> (\<exists>as. mom_acc opt = Vec as \<and> length as = length (flat_grad net)))"
  proof (rule Optimizer_step_same_update)
    fix g :: "real list"
    assume "length g = length (flat_grad net)"
    with h have "Momentum_compute_step opt g = Inr (opt\<lparr>mom_acc := Vec g\<rparr>, map (\<lambda>x. - lr opt * x) g)"
      by (intro Momentum_zero_step) auto
    then show "map_sum id snd (Momentum_compute_step opt g) =
        map_sum id snd (SGD_compute_step \<lparr>lr = lr opt\<rparr> g)"
      by (simp add: SGD_compute_step_def)
  qed
  from first second show ?thesis by blast
qed


text \<open>
  Witness for C10: two gradients of length 2 with rate 0.5, and one call of
  \<^verbatim>\<open>step\<close> from an accumulator of length 2.
\<close>

theorem Momentum_zero_is_SGD_witness:
  "compute_steps Momentum_compute_step \<lparr>lr = 1 / 2, mom_momentum = 0, mom_acc = Scalar 0\<rparr>
      [[2, 4], [6, 8]] =
     Inr (\<lparr>lr = 1 / 2, mom_momentum = 0, mom_acc = Vec [6, 8]\<rparr>, [[- 1, - 2], [- 3, - 4]]) \<and>
   compute_steps SGD_compute_step \<lparr>lr = 1 / 2\<rparr> [[2, 4], [6, 8]] =
     Inr (\<lparr>lr = 1 / 2\<rparr>, [[- 1, - 2], [- 3, - 4]]) \<and>
   map_sum id snd (Optimizer_step Momentum_compute_step
      \<lparr>lr = 1 / 2, mom_momentum = 0, mom_acc = Vec [5, 5]\<rparr>
      [(\<lparr>shape = [2], data = [1, 1]\<rparr>, \<lparr>shape = [2], data = [2, 4]\<rparr>)]) =
   Inr [(\<lparr>shape = [2], data = [0, - 1]\<rparr>, \<lparr>shape = [2], data = [2, 4]\<rparr>)]"
  using Momentum_zero_is_SGD[of 2 "[[2, 4], [6, 8]]" "1 / 2"
      "\<lparr>lr = 1 / 2, mom_momentum = 0, mom_acc = Vec [5, 5]\<rparr>" 0
      "[(\<lparr>shape = [2], data = [1, 1]\<rparr>, \<lparr>shape = [2], data = [2, 4]\<rparr>)]"]
  by (simp add: Momentum_compute_step_def SGD_compute_step_def tmul_def broadcast_def
      Optimizer_step_def np_concatenate_def get_params_and_grads_def np_ravel_def np_prod_def
      slice_def reshape_def iadd_def flat_grad_def)


section \<open>Schedulers\<close>

text \<open>
  Claim C9. Every constructor of a scheduler starts the counter at 0 and takes the snapshot
  \<open>initial_lr\<close> from the optimizer. A call of \<^verbatim>\<open>step\<close> that returns has advanced
  the counter by exactly 1, has written the value of \<^verbatim>\<open>_compute_lr\<close>, evaluated at
  the advanced counter, into the field \<^verbatim>\<open>lr\<close> of the optimizer, returns that rate,
  and has left every other field of the optimizer and of the scheduler as it was. On a
  policy that cannot raise, \<open>k\<close> calls in a row all return and leave the counter advanced
  by \<open>k\<close>; every policy that a constructor builds is one, given a decay rate that is not
  negative. \<^verbatim>\<open>get_current_lr\<close> reads the field of the optimizer, also after it has
  been overwritten.
\<close>

theorem LRScheduler_counter_and_rate:
  "(StepLR_init optim n g = Inr s0 \<or> MultiStepLR_init optim ms g = Inr s0 \<or>
    ExponentialLR_init optim n r = Inr s0 \<or> LinearLR_init optim n f st = Inr s0 \<longrightarrow>
      sched_t s0 = 0 \<and> initial_lr s0 = lr optim \<and> (0 \<le> r \<longrightarrow> policy_ok (policy s0))) \<and>
   (LRScheduler_step s optim = Inr (s', optim', x) \<longrightarrow>
      sched_t s' = sched_t s + 1 \<and> policy s' = policy s \<and> initial_lr s' = initial_lr s \<and>
      compute_lr (s\<lparr>sched_t := sched_t s + 1\<rparr>) optim = Inr x \<and>
      lr optim' = x \<and> Optimizer.more optim' = Optimizer.more optim \<and> get_current_lr optim' = x) \<and>
   (policy_ok (policy s) \<longrightarrow>
      (\<exists>s'' optim''. LRScheduler_steps k s optim = Inr (s'', optim'') \<and>
         sched_t s'' = sched_t s + k \<and> Optimizer.more optim'' = Optimizer.more optim)) \<and>
   get_current_lr optim = lr optim \<and> get_current_lr (optim\<lparr>lr := y\<rparr>) = y"
proof -
  have a: "sched_t s' = sched_t s + 1 \<and> policy s' = policy s \<and> initial_lr s' = initial_lr s \<and>
      compute_lr (s\<lparr>sched_t := sched_t s + 1\<rparr>) optim = Inr x \<and>
      lr optim' = x \<and> Optimizer.more optim' = Optimizer.more optim \<and> get_current_lr optim' = x"
    if "LRScheduler_step s optim = Inr (s', optim', x)"
    using LRScheduler_step_result[OF that] by (simp add: get_current_lr_def)
  have b: "\<exists>s'' optim''. LRScheduler_steps k s optim = Inr (s'', optim'') \<and>
         sched_t s'' = sched_t s + k \<and> Optimizer.more optim'' = Optimizer.more optim"
    if "policy_ok (policy s)"
    using LRScheduler_steps_ok[OF that, of k optim] by blast
  have c: "get_current_lr optim = lr optim \<and> get_current_lr (optim\<lparr>lr := y\<rparr>) = y"
    by (simp add: get_current_lr_def)
  from a b c init_facts[of optim n g s0 ms r f st] show ?thesis by blast
qed


text \<open>
  Witness for C9: a \<^verbatim>\<open>StepLR\<close> with step size 1 and gamma 0.5 on a Momentum
  optimizer, whose momentum and accumulator the scheduler leaves alone.
\<close>

theorem LRScheduler_counter_and_rate_witness:
  "StepLR_init \<lparr>lr = 1, mom_momentum = 9 / 10, mom_acc = Scalar 0\<rparr> 1 (1 / 2) =
     Inr \<lparr>initial_lr = 1, sched_t = 0, policy = StepLR 1 (1 / 2)\<rparr> \<and>
   LRScheduler_step \<lparr>initial_lr = 1, sched_t = 0, policy = StepLR 1 (1 / 2)\<rparr>
       \<lparr>lr = 1, mom_momentum = 9 / 10, mom_acc = Scalar 0\<rparr> =
     Inr (\<lparr>initial_lr = 1, sched_t = 1, policy = StepLR 1 (1 / 2)\<rparr>,
          \<lparr>lr = 1 / 2, mom_momentum = 9 / 10, mom_acc = Scalar 0\<rparr>, 1 / 2) \<and>
   policy_ok (StepLR 1 (1 / 2)) \<and>
   (\<exists>s'' optim''. LRScheduler_steps 3 \<lparr>initial_lr = 1, sched_t = 0, policy = StepLR 1 (1 / 2)\<rparr>
       \<lparr>lr = 1, mom_momentum = 9 / 10, mom_acc = Scalar 0\<rparr> = Inr (s'', optim'') \<and>
      sched_t s'' = 3 \<and>
      Optimizer.more optim'' = Optimizer.more \<lparr>lr = 1, mom_momentum = 9 / 10, mom_acc = Scalar 0\<rparr>)"
  using LRScheduler_counter_and_rate[where
      optim = "\<lparr>lr = 1, mom_momentum = 9 / 10, mom_acc = Scalar 0\<rparr>" and n = 1 and g = "1 / 2"
      and ?s0.0 = "\<lparr>initial_lr = 1, sched_t = 0, policy = StepLR 1 (1 / 2)\<rparr>" and ms = "[]"
      and r = 0 and f = 0 and st = 0
      and s = "\<lparr>initial_lr = 1, sched_t = 0, policy = StepLR 1 (1 / 2)\<rparr>"
      and s' = "\<lparr>initial_lr = 1, sched_t = 1, policy = StepLR 1 (1 / 2)\<rparr>"
      and optim' = "\<lparr>lr = 1 / 2, mom_momentum = 9 / 10, mom_acc = Scalar 0\<rparr>"
      and x = "1 / 2" and k = 3 and y = 0]
  by (simp add: StepLR_init_def LRScheduler_init_def get_current_lr_def policy_ok_def
      LRScheduler_step_def compute_lr_def)


text \<open>
  Claim C2. For an \<^verbatim>\<open>ExponentialLR\<close> scheduler with a decay rate that is not
  negative, a call of \<^verbatim>\<open>step\<close> that advances the counter to \<open>t \<le> decay_steps\<close>
  sets the rate of the optimizer to \<open>initial_lr * decay_rate powr (t / decay_steps)\<close>,
  computed from the snapshot and not from the current rate; a call that advances the
  counter beyond \<open>decay_steps\<close> leaves the rate as it is. With \<open>decay_steps = 10\<close>,
  \<open>decay_rate = 0.5\<close> and the initial rate 1, the rate is 0.5 after 10 calls and after
  every larger number of calls, 15 among them.
\<close>

theorem ExponentialLR_decay:
  assumes "policy s = ExponentialLR n r" and "0 \<le> r"
  shows "(int (sched_t s) + 1 \<le> n \<longrightarrow>
            LRScheduler_step s optim =
              Inr (s\<lparr>sched_t := sched_t s + 1\<rparr>,
                   optim\<lparr>lr := initial_lr s * r powr (real (sched_t s + 1) / of_int n)\<rparr>,
                   initial_lr s * r powr (real (sched_t s + 1) / of_int n))) \<and>
         (n < int (sched_t s) + 1 \<longrightarrow>
            LRScheduler_step s optim = Inr (s\<lparr>sched_t := sched_t s + 1\<rparr>, optim, lr optim)) \<and>
         (\<exists>s0 s10. ExponentialLR_init \<lparr>lr = 1\<rparr> 10 (1 / 2) = Inr s0 \<and>
            initial_lr s0 = 1 \<and> sched_t s0 = 0 \<and>
            LRScheduler_steps 10 s0 \<lparr>lr = 1\<rparr> = Inr (s10, \<lparr>lr = 1 / 2\<rparr>) \<and> sched_t s10 = 10 \<and>
            (\<forall>k. LRScheduler_steps (10 + k) s0 \<lparr>lr = 1\<rparr> =
                   Inr (s10\<lparr>sched_t := 10 + k\<rparr>, \<lparr>lr = 1 / 2\<rparr>)))"
proof -
  let ?s' = "s\<lparr>sched_t := sched_t s + 1\<rparr>"
  have a: "LRScheduler_step s optim =
      Inr (?s', optim\<lparr>lr := initial_lr s * r powr (real (sched_t s + 1) / of_int n)\<rparr>,
           initial_lr s * r powr (real (sched_t s + 1) / of_int n))"
    if "int (sched_t s) + 1 \<le> n"
  proof -
    have "compute_lr ?s' optim = Inr (initial_lr ?s' * r powr (real (sched_t ?s') / of_int n))"
      using assms that by (intro compute_lr_Exponential_le) auto
    then show ?thesis using LRScheduler_step_eq[of s optim] by simp
  qed
  have b: "LRScheduler_step s optim = Inr (?s', optim, lr optim)" if "n < int (sched_t s) + 1"
  proof -
    have "compute_lr ?s' optim = Inr (lr optim)"
      using assms that by (intro compute_lr_Exponential_gt[of _ n r]) auto
    then show ?thesis using LRScheduler_step_eq[of s optim "lr optim"] by simp
  qed
  let ?s0 = "\<lparr>initial_lr = 1, sched_t = 0, policy = ExponentialLR 10 (1 / 2)\<rparr>"
  let ?s10 = "\<lparr>initial_lr = 1, sched_t = 10, policy = ExponentialLR 10 (1 / 2)\<rparr>"
  have i: "ExponentialLR_init \<lparr>lr = 1\<rparr> 10 (1 / 2) = Inr ?s0"
    by (simp add: ExponentialLR_init_def LRScheduler_init_def get_current_lr_def)
  have f: "LRScheduler_steps (10 + k) ?s0 \<lparr>lr = 1\<rparr> = Inr (?s10\<lparr>sched_t := 10 + k\<rparr>, \<lparr>lr = 1 / 2\<rparr>)" for k
    using LRScheduler_steps_add[OF Exponential_example_10, of k]
      Exponential_frozen[of ?s10 10 "1 / 2" k "\<lparr>lr = 1 / 2\<rparr>"]
    by simp
  have c: "\<exists>s0 s10. ExponentialLR_init \<lparr>lr = 1\<rparr> 10 (1 / 2) = Inr s0 \<and>
            initial_lr s0 = 1 \<and> sched_t s0 = 0 \<and>
            LRScheduler_steps 10 s0 \<lparr>lr = 1\<rparr> = Inr (s10, \<lparr>lr = 1 / 2\<rparr>) \<and> sched_t s10 = 10 \<and>
            (\<forall>k. LRScheduler_steps (10 + k) s0 \<lparr>lr = 1\<rparr> =
                   Inr (s10\<lparr>sched_t := 10 + k\<rparr>, \<lparr>lr = 1 / 2\<rparr>))"
    using i Exponential_example_10 f
    by (intro exI[of _ ?s0] exI[of _ ?s10]) simp
  from a b c show ?thesis by blast
qed


text \<open>
  Witness for C2: \<open>decay_steps = 1\<close>, \<open>decay_rate = 0.5\<close> and the snapshot 3; the first
  call computes the rate 1.5, the second call leaves it.
\<close>

theorem ExponentialLR_decay_witness:
  "LRScheduler_step \<lparr>initial_lr = 3, sched_t = 0, policy = ExponentialLR 1 (1 / 2)\<rparr> \<lparr>lr = 3\<rparr> =
     Inr (\<lparr>initial_lr = 3, sched_t = 1, policy = ExponentialLR 1 (1 / 2)\<rparr>, \<lparr>lr = 3 / 2\<rparr>, 3 / 2) \<and>
   LRScheduler_step \<lparr>initial_lr = 3, sched_t = 1, policy = ExponentialLR 1 (1 / 2)\<rparr> \<lparr>lr = 3 / 2\<rparr> =
     Inr (\<lparr>initial_lr = 3, sched_t = 2, policy = ExponentialLR 1 (1 / 2)\<rparr>, \<lparr>lr = 3 / 2\<rparr>, 3 / 2)"
  using ExponentialLR_decay[of "\<lparr>initial_lr = 3, sched_t = 0, policy = ExponentialLR 1 (1 / 2)\<rparr>"
      1 "1 / 2" "\<lparr>lr = 3\<rparr>"]
    ExponentialLR_decay[of "\<lparr>initial_lr = 3, sched_t = 1, policy = ExponentialLR 1 (1 / 2)\<rparr>"
      1 "1 / 2" "\<lparr>lr = 3 / 2\<rparr>"]
  by simp



text \<open>
  Claim C6 as the specification states it fails on its own instance,
  \<^verbatim>\<open>LinearLR(decay_steps=5, final_lr=0.0, start_step=0)\<close> from the rate 1.0. The
  stored delta is the double nearest to \<open>- 0.2\<close>, and every call rounds its sum to a
  double: the fifth call leaves the rate \<open>2 ^ - 54\<close>, not 0.
\<close>

theorem LinearLR_instance_counterexample:
  "LinearLR_init \<lparr>lr = 1\<rparr> 5 0 0 =
     Inr \<lparr>initial_lr = 1, sched_t = 0,
          policy = LinearLR (- (3602879701896397 / 2 ^ 54)) 0 5 0\<rparr> \<and>
   LRScheduler_steps 5
     \<lparr>initial_lr = 1, sched_t = 0, policy = LinearLR (- (3602879701896397 / 2 ^ 54)) 0 5 0\<rparr>
     \<lparr>lr = 1\<rparr> =
   Inr (\<lparr>initial_lr = 1, sched_t = 5, policy = LinearLR (- (3602879701896397 / 2 ^ 54)) 0 5 0\<rparr>,
        \<lparr>lr = 1 / 2 ^ 54\<rparr>) \<and>
   LRScheduler_steps 5
     \<lparr>initial_lr = 1, sched_t = 0, policy = LinearLR (- (3602879701896397 / 2 ^ 54)) 0 5 0\<rparr>
     \<lparr>lr = 1\<rparr> \<noteq>
   Inr (\<lparr>initial_lr = 1, sched_t = 5, policy = LinearLR (- (3602879701896397 / 2 ^ 54)) 0 5 0\<rparr>,
        \<lparr>lr = 0\<rparr>)"
proof -
  have "LinearLR_init \<lparr>lr = 1\<rparr> 5 0 0 =
     Inr \<lparr>initial_lr = 1, sched_t = 0,
          policy = LinearLR (- (3602879701896397 / 2 ^ 54)) 0 5 0\<rparr>"
    using Linear_delta_example
    by (simp add: LinearLR_init_def LRScheduler_init_def get_current_lr_def Let_def)
  then show ?thesis
    using Linear_example_5 by simp
qed

text \<open>
  Claim C6, amended. For a \<^verbatim>\<open>LinearLR\<close> scheduler, a call of \<^verbatim>\<open>step\<close> that
  advances the counter to \<open>t \<le> start_step\<close> leaves the rate of the optimizer as it is; one
  with \<open>start_step < t \<le> start_step + decay_steps\<close> adds the stored delta to the current
  rate, in float arithmetic; one with \<open>t > start_step + decay_steps\<close> leaves the rate as it
  is. The constructor sets the delta to \<open>(final_lr - initial_lr) / decay_steps\<close>, in float
  arithmetic. With \<open>decay_steps = 5\<close>, \<open>final_lr = 0\<close>, \<open>start_step = 0\<close> and the initial
  rate 1, the rates after the calls 1 to 5 are the doubles that Python prints as 0.8,
  0.6000000000000001, 0.4000000000000001, 0.20000000000000007 and 5.551115123125783e-17,
  each within \<open>2 ^ - 53\<close> of 0.8, 0.6, 0.4, 0.2 and 0, and the rate stays at the last of
  them, \<open>2 ^ - 54\<close>, after every larger number of calls.
\<close>

theorem LinearLR_ramp:
  assumes "policy s = LinearLR d f n st"
  shows "(int (sched_t s) + 1 \<le> st \<longrightarrow>
            LRScheduler_step s optim = Inr (s\<lparr>sched_t := sched_t s + 1\<rparr>, optim, lr optim)) \<and>
         (st < int (sched_t s) + 1 \<and> int (sched_t s) + 1 \<le> st + n \<longrightarrow>
            LRScheduler_step s optim =
              Inr (s\<lparr>sched_t := sched_t s + 1\<rparr>, optim\<lparr>lr := float_add (lr optim) d\<rparr>,
                   float_add (lr optim) d)) \<and>
         (st + n < int (sched_t s) + 1 \<longrightarrow>
            LRScheduler_step s optim = Inr (s\<lparr>sched_t := sched_t s + 1\<rparr>, optim, lr optim)) \<and>
         (f < lr optim \<and> 0 < n \<longrightarrow>
            LinearLR_init optim n f st =
              Inr \<lparr>initial_lr = lr optim, sched_t = 0,
                   policy = LinearLR (float_div (float_sub f (lr optim)) (float_of_int n))
                     f n st\<rparr>) \<and>
         (\<exists>s0. LinearLR_init \<lparr>lr = 1\<rparr> 5 0 0 = Inr s0 \<and>
            map (\<lambda>k. LRScheduler_steps k s0 \<lparr>lr = 1\<rparr>) [1, 2, 3, 4, 5] =
            map (\<lambda>(k, x). Inr (s0\<lparr>sched_t := k\<rparr>, \<lparr>lr = x\<rparr>))
              [(1, 3602879701896397 / 2 ^ 52), (2, 5404319552844596 / 2 ^ 53),
               (3, 7205759403792795 / 2 ^ 54), (4, 3602879701896398 / 2 ^ 54),
               (5, 1 / 2 ^ 54)] \<and>
            (\<forall>k. LRScheduler_steps (5 + k) s0 \<lparr>lr = 1\<rparr> =
                   Inr (s0\<lparr>sched_t := 5 + k\<rparr>, \<lparr>lr = 1 / 2 ^ 54\<rparr>))) \<and>
         list_all2 (\<lambda>x y. \<bar>x - y\<bar> \<le> 1 / 2 ^ 53)
           [3602879701896397 / 2 ^ 52, 5404319552844596 / 2 ^ 53, 7205759403792795 / 2 ^ 54,
            3602879701896398 / 2 ^ 54, 1 / 2 ^ 54 :: real]
           [4 / 5, 3 / 5, 2 / 5, 1 / 5, 0]"
proof -
  let ?s' = "s\<lparr>sched_t := sched_t s + 1\<rparr>"
  have c: "compute_lr ?s' optim =
      Inr (if st < int (sched_t ?s') \<and> int (sched_t ?s') \<le> st + n
           then float_add (lr optim) d else lr optim)"
    using assms by (intro compute_lr_Linear) simp
  have a: "LRScheduler_step s optim = Inr (?s', optim, lr optim)"
    if "int (sched_t s) + 1 \<le> st \<or> st + n < int (sched_t s) + 1"
    using LRScheduler_step_eq[OF c] that by auto
  have b: "LRScheduler_step s optim =
      Inr (?s', optim\<lparr>lr := float_add (lr optim) d\<rparr>, float_add (lr optim) d)"
    if "st < int (sched_t s) + 1 \<and> int (sched_t s) + 1 \<le> st + n"
    using LRScheduler_step_eq[OF c] that by auto
  have i: "LinearLR_init optim n f st =
      Inr \<lparr>initial_lr = lr optim, sched_t = 0,
           policy = LinearLR (float_div (float_sub f (lr optim)) (float_of_int n)) f n st\<rparr>"
    if "f < lr optim \<and> 0 < n"
    using that by (simp add: LinearLR_init_def LRScheduler_init_def get_current_lr_def Let_def)
  let ?d = "- (3602879701896397 / 2 ^ 54) :: real"
  let ?s0 = "\<lparr>initial_lr = 1, sched_t = 0, policy = LinearLR ?d 0 5 0\<rparr>"
  let ?s5 = "\<lparr>initial_lr = 1, sched_t = 5, policy = LinearLR ?d 0 5 0\<rparr>"
  have i0: "LinearLR_init \<lparr>lr = 1\<rparr> 5 0 0 = Inr ?s0"
    using Linear_delta_example
    by (simp add: LinearLR_init_def LRScheduler_init_def get_current_lr_def Let_def)
  have e: "map (\<lambda>k. LRScheduler_steps k ?s0 \<lparr>lr = 1\<rparr>) [1, 2, 3, 4, 5] =
            map (\<lambda>(k, x). Inr (?s0\<lparr>sched_t := k\<rparr>, \<lparr>lr = x\<rparr>))
              [(1, 3602879701896397 / 2 ^ 52), (2, 5404319552844596 / 2 ^ 53),
               (3, 7205759403792795 / 2 ^ 54), (4, 3602879701896398 / 2 ^ 54),
               (5, 1 / 2 ^ 54)]"
    using Linear_example by simp
  have z: "LRScheduler_steps (5 + k) ?s0 \<lparr>lr = 1\<rparr> =
      Inr (?s0\<lparr>sched_t := 5 + k\<rparr>, \<lparr>lr = 1 / 2 ^ 54\<rparr>)" for k
    using LRScheduler_steps_add[OF Linear_example_5, of k]
      Linear_frozen[of ?s5 ?d 0 5 0 k "\<lparr>lr = 1 / 2 ^ 54\<rparr>"]
    by simp
  have x: "\<exists>s0. LinearLR_init \<lparr>lr = 1\<rparr> 5 0 0 = Inr s0 \<and>
            map (\<lambda>k. LRScheduler_steps k s0 \<lparr>lr = 1\<rparr>) [1, 2, 3, 4, 5] =
            map (\<lambda>(k, x). Inr (s0\<lparr>sched_t := k\<rparr>, \<lparr>lr = x\<rparr>))
              [(1, 3602879701896397 / 2 ^ 52), (2, 5404319552844596 / 2 ^ 53),
               (3, 7205759403792795 / 2 ^ 54), (4, 3602879701896398 / 2 ^ 54),
               (5, 1 / 2 ^ 54)] \<and>
            (\<forall>k. LRScheduler_steps (5 + k) s0 \<lparr>lr = 1\<rparr> =
                   Inr (s0\<lparr>sched_t := 5 + k\<rparr>, \<lparr>lr = 1 / 2 ^ 54\<rparr>))"
    using i0 e z by (intro exI[of _ ?s0] conjI allI)
  have close: "list_all2 (\<lambda>x y. \<bar>x - y\<bar> \<le> 1 / 2 ^ 53)
           [3602879701896397 / 2 ^ 52, 5404319552844596 / 2 ^ 53, 7205759403792795 / 2 ^ 54,
            3602879701896398 / 2 ^ 54, 1 / 2 ^ 54 :: real]
           [4 / 5, 3 / 5, 2 / 5, 1 / 5, 0]"
    by simp
  from a b i x close show ?thesis by blast
qed

text \<open>
  Witness for C6: \<open>decay_steps = 2\<close>, \<open>start_step = 1\<close> and the delta \<open>- 0.25\<close>, at the
  counters 0, 1 and 3, and the construction with \<open>final_lr = 0.5\<close> from the rate 1.
\<close>

theorem LinearLR_ramp_witness:
  "LRScheduler_step \<lparr>initial_lr = 1, sched_t = 0, policy = LinearLR (- (1 / 4)) 0 2 1\<rparr> \<lparr>lr = 1\<rparr> =
     Inr (\<lparr>initial_lr = 1, sched_t = 1, policy = LinearLR (- (1 / 4)) 0 2 1\<rparr>, \<lparr>lr = 1\<rparr>, 1) \<and>
   LRScheduler_step \<lparr>initial_lr = 1, sched_t = 1, policy = LinearLR (- (1 / 4)) 0 2 1\<rparr> \<lparr>lr = 1\<rparr> =
     Inr (\<lparr>initial_lr = 1, sched_t = 2, policy = LinearLR (- (1 / 4)) 0 2 1\<rparr>, \<lparr>lr = 3 / 4\<rparr>, 3 / 4) \<and>
   LRScheduler_step \<lparr>initial_lr = 1, sched_t = 3, policy = LinearLR (- (1 / 4)) 0 2 1\<rparr> \<lparr>lr = 1 / 2\<rparr> =
     Inr (\<lparr>initial_lr = 1, sched_t = 4, policy = LinearLR (- (1 / 4)) 0 2 1\<rparr>, \<lparr>lr = 1 / 2\<rparr>, 1 / 2) \<and>
   LinearLR_init \<lparr>lr = 1\<rparr> 2 (1 / 2) 1 =
     Inr \<lparr>initial_lr = 1, sched_t = 0, policy = LinearLR (- (1 / 4)) (1 / 2) 2 1\<rparr>"
  using LinearLR_ramp[of "\<lparr>initial_lr = 1, sched_t = 0, policy = LinearLR (- (1 / 4)) 0 2 1\<rparr>"
      "- (1 / 4)" 0 2 1 "\<lparr>lr = 1\<rparr>"]
    LinearLR_ramp[of "\<lparr>initial_lr = 1, sched_t = 1, policy = LinearLR (- (1 / 4)) 0 2 1\<rparr>"
      "- (1 / 4)" 0 2 1 "\<lparr>lr = 1\<rparr>"]
    LinearLR_ramp[of "\<lparr>initial_lr = 1, sched_t = 3, policy = LinearLR (- (1 / 4)) 0 2 1\<rparr>"
      "- (1 / 4)" 0 2 1 "\<lparr>lr = 1 / 2\<rparr>"]
    LinearLR_ramp[of "\<lparr>initial_lr = 1, sched_t = 0, policy = LinearLR (- (1 / 4)) (1 / 2) 2 1\<rparr>"
      "- (1 / 4)" "1 / 2" 2 1 "\<lparr>lr = 1\<rparr>"]
  by (simp add: float_add_def float_sub_def float_div_def float_of_int_def round_double_def
      binade_def pow2_def round_half_even_def Let_def)

end
